theory Spec2Isabelle
  imports Complex_Main "HOL-Library.Char_ord" "HOL-Library.List_Lexorder"
begin

section \<open>Data model (src/types.ts)\<close>

text \<open>
  The four interfaces of \<^verbatim>\<open>types.ts\<close> as records. Several interfaces share field names
  (\<^verbatim>\<open>id\<close>, \<^verbatim>\<open>testName\<close>, \<^verbatim>\<open>unit\<close>), so every field carries a prefix naming its
  interface: \<^verbatim>\<open>p_\<close> for Patient, \<^verbatim>\<open>ref_\<close> for TestReference, \<^verbatim>\<open>r_\<close> for TestReading.
  An optional property (\<^verbatim>\<open>age?: number\<close>) is an \<open>option\<close>; \<open>None\<close> stands for a property
  that is absent or undefined. The storage layer only copies numbers, it never computes
  with them, so the type of numbers is the parameter \<open>'n\<close>. Strings are character lists.
\<close>

record 'n Patient =
  p_id :: string
  p_name :: string
  p_age :: "'n option"

record 'n TestReference =
  ref_id :: string
  ref_testName :: string
  ref_category :: "string option"
  ref_unit :: string
  ref_defaultIdealMin :: "'n option"
  ref_defaultIdealMax :: "'n option"

record 'n TestReading =
  r_id :: string
  r_patientId :: string
  r_testName :: string
  r_date :: string
  r_reason :: "string option"
  r_value :: 'n
  r_idealMin :: "'n option"
  r_idealMax :: "'n option"
  r_unit :: string
  r_notes :: "string option"

datatype MembersSort = MName | MLatest | MAge

datatype TestsSort = TName | TLatest | TCategory

record UserPreferences =
  sortMembersBy :: "MembersSort option"
  filterMembersQuery :: "string option"
  sortTestsBy :: "TestsSort option"
  filterTestsQuery :: "string option"

record 'n UserProfile =
  up_preferences :: UserPreferences
  up_patients :: "'n Patient list"
  up_readings :: "'n TestReading list"
  up_testReferences :: "'n TestReference list"

section \<open>Object stores\<close>

text \<open>
  An IndexedDB object store holds at most one record per key and keeps its records in
  ascending key order. It is modelled as the list of its records in that order, together
  with the function that reads the key out of a record (the store's \<^verbatim>\<open>keyPath\<close>).
  Keys are strings, compared lexicographically.
\<close>

definition key_ordered :: "('a \<Rightarrow> string) \<Rightarrow> 'a list \<Rightarrow> bool" where
  "key_ordered k xs = sorted_wrt (\<lambda>a b. k a < k b) xs"

text \<open>\<^verbatim>\<open>store.put(v)\<close>: replace the record that has the key of \<open>v\<close>, or insert \<open>v\<close> at its place.\<close>

fun put :: "('a \<Rightarrow> string) \<Rightarrow> 'a \<Rightarrow> 'a list \<Rightarrow> 'a list" where
  "put k v [] = [v]"
| "put k v (x # xs) =
     (if k v = k x then v # xs
      else if k v < k x then v # x # xs
      else x # put k v xs)"

text \<open>\<^verbatim>\<open>store.delete(key)\<close>, \<^verbatim>\<open>store.get(key)\<close> and \<^verbatim>\<open>index.getAll(key)\<close>.\<close>

definition delete_key :: "('a \<Rightarrow> string) \<Rightarrow> string \<Rightarrow> 'a list \<Rightarrow> 'a list" where
  "delete_key k i xs = filter (\<lambda>x. k x \<noteq> i) xs"

definition get :: "('a \<Rightarrow> string) \<Rightarrow> string \<Rightarrow> 'a list \<Rightarrow> 'a option" where
  "get k i xs = find (\<lambda>x. k x = i) xs"

definition getAllFromIndex :: "('a \<Rightarrow> string) \<Rightarrow> string \<Rightarrow> 'a list \<Rightarrow> 'a list" where
  "getAllFromIndex idx i xs = filter (\<lambda>x. idx x = i) xs"

text \<open>\<^verbatim>\<open>for (const v of vs) await store.put(v)\<close>.\<close>

definition put_each :: "('a \<Rightarrow> string) \<Rightarrow> 'a list \<Rightarrow> 'a list \<Rightarrow> 'a list" where
  "put_each k vs xs = foldl (\<lambda>st v. put k v st) xs vs"

section \<open>The database and its transactions (services/db.ts)\<close>

text \<open>
  The four object stores that \<^verbatim>\<open>initDB\<close> creates. The first three have
  \<^verbatim>\<open>keyPath: 'id'\<close>; \<^verbatim>\<open>preferences\<close> has out-of-line keys, so its records are pairs
  of a key and a value.
\<close>

record 'n HealthTrackerDB =
  patients :: "'n Patient list"
  readings :: "'n TestReading list"
  testReferences :: "'n TestReference list"
  preferences :: "(string \<times> UserPreferences) list"

definition emptyDB :: "'n HealthTrackerDB" where
  "emptyDB = \<lparr>patients = [], readings = [], testReferences = [], preferences = []\<rparr>"

definition wf_db :: "'n HealthTrackerDB \<Rightarrow> bool" where
  "wf_db s = (key_ordered p_id (patients s) \<and> key_ordered r_id (readings s)
     \<and> key_ordered ref_id (testReferences s) \<and> key_ordered fst (preferences s))"

text \<open>
  IndexedDB commits a transaction as a whole or not at all: a request that fails, or the
  page going away before the transaction is complete, aborts it and undoes its writes.
  A transaction is therefore modelled as a function from the committed database to the
  next committed database, and an operation of \<^verbatim>\<open>db.ts\<close> as the list of the read-write
  transactions it opens, in order. The shortcuts \<^verbatim>\<open>db.put\<close> and \<^verbatim>\<open>db.delete\<close> each
  open a transaction of their own. A read between two transactions is folded into the
  body of the transaction after it: the spec assumes a single writer, so that transaction
  starts from the state the read saw.

  \<open>run\<close> is the operation carried through; \<open>interrupted n\<close> is what is committed, and so
  what every later read observes, when the operation stops after \<open>n\<close> of its
  transactions.
\<close>

type_synonym 'n tx = "'n HealthTrackerDB \<Rightarrow> 'n HealthTrackerDB"

definition run :: "'n tx list \<Rightarrow> 'n HealthTrackerDB \<Rightarrow> 'n HealthTrackerDB" where
  "run txs s = foldl (\<lambda>st t. t st) s txs"

definition interrupted :: "nat \<Rightarrow> 'n tx list \<Rightarrow> 'n HealthTrackerDB \<Rightarrow> 'n HealthTrackerDB" where
  "interrupted n txs s = run (take n txs) s"

text \<open>
  Every operation first awaits \<^verbatim>\<open>initDB\<close>. Its first call in a page session opens the
  database and, when \<^verbatim>\<open>testReferences\<close> counts zero records, puts every default test in
  one transaction; later calls return the open database. The default tests are data of
  the repository that the operations do not depend on, so they are a parameter. The
  operations below are modelled from the point where \<^verbatim>\<open>initDB\<close> has returned: their state
  is the open database.
\<close>

definition initDB :: "'n TestReference list \<Rightarrow> 'n tx list" where
  "initDB defaultTests =
     [\<lambda>s. if length (testReferences s) = 0
           then s\<lparr>testReferences := put_each ref_id defaultTests (testReferences s)\<rparr>
           else s]"

subsection \<open>Patients\<close>

definition getPatients :: "'n HealthTrackerDB \<Rightarrow> 'n Patient list" where
  "getPatients s = patients s"

definition savePatient :: "'n Patient \<Rightarrow> 'n tx list" where
  "savePatient patient = [\<lambda>s. s\<lparr>patients := put p_id patient (patients s)\<rparr>]"

text \<open>
  The cursor loop of \<^verbatim>\<open>deletePatient\<close>: \<^verbatim>\<open>index.openCursor(id)\<close> and
  \<^verbatim>\<open>cursor.continue()\<close> move to the next reading whose \<^verbatim>\<open>patientId\<close> is \<open>pid\<close>,
  \<^verbatim>\<open>cursor.delete()\<close> deletes the record under the cursor by its primary key, and the
  loop ends when no such reading is left.
\<close>

function deleteByCursor :: "string \<Rightarrow> 'n TestReading list \<Rightarrow> 'n TestReading list" where
  "deleteByCursor pid rs =
     (case find (\<lambda>r. r_patientId r = pid) rs of
        None \<Rightarrow> rs
      | Some r \<Rightarrow> deleteByCursor pid (delete_key r_id (r_id r) rs))"
  by pat_completeness auto
termination
proof (relation "measure (\<lambda>(pid, rs). length rs)")
  show "wf (measure (\<lambda>(pid, rs). length rs))" by simp
next
  fix pid :: string and rs :: "'n TestReading list" and r
  assume "find (\<lambda>r. r_patientId r = pid) rs = Some r"
  then have "r \<in> set rs"
    by (auto simp: find_Some_iff)
  then have "length (filter (\<lambda>x. r_id x \<noteq> r_id r) rs) < length rs"
    by (intro length_filter_less[of r]) auto
  then show "((pid, delete_key r_id (r_id r) rs), (pid, rs)) \<in> measure (\<lambda>(pid, rs). length rs)"
    by (simp add: delete_key_def)
qed

declare deleteByCursor.simps [simp del]

text \<open>
  \<^verbatim>\<open>deletePatient\<close>: \<^verbatim>\<open>db.delete('patients', id)\<close> is one transaction; the cursor loop
  runs in a second one, opened on \<^verbatim>\<open>'readings'\<close> alone.
\<close>

definition deletePatient :: "string \<Rightarrow> 'n tx list" where
  "deletePatient pid =
     [\<lambda>s. s\<lparr>patients := delete_key p_id pid (patients s)\<rparr>,
      \<lambda>s. s\<lparr>readings := deleteByCursor pid (readings s)\<rparr>]"

subsection \<open>Readings\<close>

definition getPatientReadings :: "string \<Rightarrow> 'n HealthTrackerDB \<Rightarrow> 'n TestReading list" where
  "getPatientReadings patientId s = getAllFromIndex r_patientId patientId (readings s)"

text \<open>\<^verbatim>\<open>db.getAll('readings')\<close>, which \<^verbatim>\<open>exportEntireProfile\<close> calls in line.\<close>

definition getAllReadings :: "'n HealthTrackerDB \<Rightarrow> 'n TestReading list" where
  "getAllReadings s = readings s"

text \<open>
  The identifier of a derived reference,
  \<^verbatim>\<open>reading.testName.toLowerCase().replace(/\s+/g, '-')\<close>. Characters are bytes here, so
  both functions are modelled on ASCII: \<open>toLowerCase\<close> maps \<^verbatim>\<open>A\<close>..\<^verbatim>\<open>Z\<close>, and the
  class \<^verbatim>\<open>\s\<close> is tab, line feed, vertical tab, form feed, carriage return and space.
\<close>

definition toLowerCase_char :: "char \<Rightarrow> char" where
  "toLowerCase_char c =
     (case map_of (zip ''ABCDEFGHIJKLMNOPQRSTUVWXYZ'' ''abcdefghijklmnopqrstuvwxyz'') c of
        Some l \<Rightarrow> l
      | None \<Rightarrow> c)"

definition toLowerCase :: "string \<Rightarrow> string" where
  "toLowerCase s = map toLowerCase_char s"

definition isSpace :: "char \<Rightarrow> bool" where
  "isSpace c = (c \<in> set [CHR 0x09, CHR 0x0A, CHR 0x0B, CHR 0x0C, CHR 0x0D, CHR '' ''])"

function replaceSpaces :: "string \<Rightarrow> string" where
  "replaceSpaces [] = []"
| "replaceSpaces (c # cs) =
     (if isSpace c then CHR ''-'' # replaceSpaces (dropWhile isSpace cs)
      else c # replaceSpaces cs)"
  by pat_completeness auto
termination
proof (relation "measure length")
  show "wf (measure (length :: string \<Rightarrow> nat))" by simp
next
  fix c :: char and cs :: string
  have "length (dropWhile isSpace cs) \<le> length cs"
    by (rule length_dropWhile_le)
  then show "(dropWhile isSpace cs, c # cs) \<in> measure length" by simp
next
  fix c :: char and cs :: string
  show "(cs, c # cs) \<in> measure length" by simp
qed

definition derivedId :: "string \<Rightarrow> string" where
  "derivedId testName = replaceSpaces (toLowerCase testName)"

definition derivedReference :: "'n TestReading \<Rightarrow> 'n TestReference" where
  "derivedReference reading =
     \<lparr>ref_id = derivedId (r_testName reading),
      ref_testName = r_testName reading,
      ref_category = None,
      ref_unit = r_unit reading,
      ref_defaultIdealMin = r_idealMin reading,
      ref_defaultIdealMax = r_idealMax reading\<rparr>"

text \<open>
  The second half of \<^verbatim>\<open>saveReading\<close>, and of each round of \<^verbatim>\<open>bulkSaveReadings\<close>:
  look the test name up in the \<^verbatim>\<open>by-testName\<close> index and put a derived reference when
  the result is empty.
\<close>

definition deriveReference :: "'n TestReading \<Rightarrow> 'n tx" where
  "deriveReference reading s =
     (if getAllFromIndex ref_testName (r_testName reading) (testReferences s) = []
      then s\<lparr>testReferences := put ref_id (derivedReference reading) (testReferences s)\<rparr>
      else s)"

definition putReading :: "'n TestReading \<Rightarrow> 'n tx" where
  "putReading reading s = s\<lparr>readings := put r_id reading (readings s)\<rparr>"

text \<open>\<^verbatim>\<open>saveReading\<close> uses \<^verbatim>\<open>db.put\<close> twice: two transactions.\<close>

definition saveReading :: "'n TestReading \<Rightarrow> 'n tx list" where
  "saveReading reading = [putReading reading, deriveReference reading]"

text \<open>
  \<^verbatim>\<open>bulkSaveReadings\<close> opens one transaction on \<^verbatim>\<open>['readings', 'testReferences']\<close> and
  runs the whole loop inside it.
\<close>

definition bulkSaveReadings :: "'n TestReading list \<Rightarrow> 'n tx list" where
  "bulkSaveReadings rs =
     [\<lambda>s. foldl (\<lambda>st reading. deriveReference reading (putReading reading st)) s rs]"

subsection \<open>References\<close>

definition getTestReferences :: "'n HealthTrackerDB \<Rightarrow> 'n TestReference list" where
  "getTestReferences s = testReferences s"

definition saveTestReference :: "'n TestReference \<Rightarrow> 'n tx list" where
  "saveTestReference ref = [\<lambda>s. s\<lparr>testReferences := put ref_id ref (testReferences s)\<rparr>]"

subsection \<open>Preferences\<close>

text \<open>\<^verbatim>\<open>{}\<close>, the value of \<^verbatim>\<open>prefs || {}\<close> when nothing is stored under \<^verbatim>\<open>'user_prefs'\<close>.\<close>

definition noPreferences :: UserPreferences where
  "noPreferences = \<lparr>sortMembersBy = None, filterMembersQuery = None,
     sortTestsBy = None, filterTestsQuery = None\<rparr>"

definition getPreferences :: "'n HealthTrackerDB \<Rightarrow> UserPreferences" where
  "getPreferences s =
     (case get fst ''user_prefs'' (preferences s) of
        Some (key, prefs) \<Rightarrow> prefs
      | None \<Rightarrow> noPreferences)"

text \<open>
  The object spread \<^verbatim>\<open>{ ...existing, ...prefs }\<close>: a property that \<open>prefs\<close> has wins,
  every other one is taken from \<open>existing\<close>. The callers pass objects whose properties
  have values; a property written out with the value undefined, which the spread would
  copy, is not modelled apart from a missing one.
\<close>

definition spread :: "UserPreferences \<Rightarrow> UserPreferences \<Rightarrow> UserPreferences" where
  "spread existing prefs =
     \<lparr>sortMembersBy =
        (case sortMembersBy prefs of Some v \<Rightarrow> Some v | None \<Rightarrow> sortMembersBy existing),
      filterMembersQuery =
        (case filterMembersQuery prefs of Some v \<Rightarrow> Some v | None \<Rightarrow> filterMembersQuery existing),
      sortTestsBy =
        (case sortTestsBy prefs of Some v \<Rightarrow> Some v | None \<Rightarrow> sortTestsBy existing),
      filterTestsQuery =
        (case filterTestsQuery prefs of Some v \<Rightarrow> Some v | None \<Rightarrow> filterTestsQuery existing)\<rparr>"

definition savePreferences :: "UserPreferences \<Rightarrow> 'n tx list" where
  "savePreferences prefs =
     [\<lambda>s. s\<lparr>preferences :=
        put fst (''user_prefs'', spread (getPreferences s) prefs) (preferences s)\<rparr>]"

subsection \<open>Exports and imports\<close>

text \<open>
  \<^verbatim>\<open>exportEntireProfile\<close> builds the object \<^verbatim>\<open>profile\<close> and returns its JSON text;
  \<^verbatim>\<open>importProfile\<close> parses a JSON text and works on whatever value comes out, which it
  does not validate. So the import is modelled on JSON values, and the export is followed
  by what \<^verbatim>\<open>JSON.parse(JSON.stringify(profile))\<close> gives.

  A number-typed property holds a double or, after an import, \<^verbatim>\<open>null\<close>: JSON text has
  no NaN and no infinities, and \<^verbatim>\<open>JSON.stringify\<close> writes \<^verbatim>\<open>null\<close> in their place. The
  databases of the import are therefore databases over \<open>number\<close>. A finite double is
  the real number it stands for; the two zeros, which \<^verbatim>\<open>===\<close> does not tell apart, are
  one.
\<close>

datatype number = Finite real | NaN | PosInfinity | NegInfinity | Null

text \<open>
  The values of \<^verbatim>\<open>JSON.parse\<close>. An object is the list of its properties, each name
  once (of a name written twice the parser keeps the last value). A parsed number is
  finite or, for a literal too large for a double, infinite.
\<close>

datatype json =
  JNull | JBool bool | JNum number | JStr string | JArr "json list" | JObj "(string \<times> json) list"

datatype parse_result = ParseError | Parsed json

datatype error =
  SyntaxError | TypeError | DataError | InvalidFormat | InvalidLine string | RangeError

text \<open>
  \<open>property name v\<close> is \<^verbatim>\<open>v[name]\<close> for the names the source reads, \<open>None\<close> for
  undefined; only an object has them. \<open>truthy\<close> is the test of \<^verbatim>\<open>if\<close> and \<^verbatim>\<open>&&\<close>.
  \<open>elements\<close> is what \<^verbatim>\<open>for (const x of v)\<close> goes through: the elements of an array,
  the characters of a string, and \<open>None\<close> for a value that is not iterable, where the loop
  throws a TypeError.
\<close>

definition property :: "string \<Rightarrow> json \<Rightarrow> json option" where
  "property name v = (case v of JObj props \<Rightarrow> map_of props name | _ \<Rightarrow> None)"

fun truthy :: "json option \<Rightarrow> bool" where
  "truthy None = False"
| "truthy (Some JNull) = False"
| "truthy (Some (JBool b)) = b"
| "truthy (Some (JNum x)) = (x \<noteq> Finite 0 \<and> x \<noteq> NaN)"
| "truthy (Some (JStr s)) = (s \<noteq> [])"
| "truthy (Some (JArr xs)) = True"
| "truthy (Some (JObj props)) = True"

fun elements :: "json \<Rightarrow> json list option" where
  "elements (JArr xs) = Some xs"
| "elements (JStr s) = Some (map (\<lambda>c. JStr [c]) s)"
| "elements v = None"

text \<open>
  What \<^verbatim>\<open>store.put(v)\<close> does with a value in a store with \<^verbatim>\<open>keyPath: 'id'\<close>. It throws
  a DataError when \<open>v\<close> has no valid key at \<^verbatim>\<open>id\<close> (\<open>NoKey\<close>); a valid key is a
  number other than NaN, a string, or an array of valid keys. Otherwise it stores the
  value. The stores of the model hold records of the declared types with string keys: a
  stored value is such a \<open>Record\<close>, made of the properties that its interface declares
  (others, which no code of the repository reads, are not kept), or it is \<open>Foreign\<close> (a
  key that is no string, a declared property of another type), and then the database is
  no longer one this model describes.
\<close>

datatype 'a putArg = Record 'a | NoKey | Foreign

fun validKey :: "json \<Rightarrow> bool" where
  "validKey (JNum x) = (x \<noteq> NaN \<and> x \<noteq> Null)"
| "validKey (JStr s) = True"
| "validKey (JArr xs) = list_all validKey xs"
| "validKey v = False"

definition inlineKey :: "(json \<Rightarrow> 'a option) \<Rightarrow> json \<Rightarrow> 'a putArg" where
  "inlineKey decode v =
     (case property ''id'' v of
        None \<Rightarrow> NoKey
      | Some key \<Rightarrow>
          if \<not> validKey key then NoKey
          else (case decode v of Some r \<Rightarrow> Record r | None \<Rightarrow> Foreign))"

text \<open>
  Reading a property at its declared type; \<open>None\<close> when the value has another type. An
  optional property may be missing or null. A number may be null.
\<close>

fun asString :: "json option \<Rightarrow> string option" where
  "asString (Some (JStr s)) = Some s"
| "asString v = None"

fun asOptionalString :: "json option \<Rightarrow> string option option" where
  "asOptionalString None = Some None"
| "asOptionalString (Some JNull) = Some None"
| "asOptionalString (Some (JStr s)) = Some (Some s)"
| "asOptionalString v = None"

fun asNumber :: "json option \<Rightarrow> number option" where
  "asNumber (Some (JNum x)) = Some x"
| "asNumber (Some JNull) = Some Null"
| "asNumber v = None"

fun asOptionalNumber :: "json option \<Rightarrow> number option option" where
  "asOptionalNumber None = Some None"
| "asOptionalNumber (Some JNull) = Some None"
| "asOptionalNumber (Some (JNum x)) = Some (Some x)"
| "asOptionalNumber v = None"

definition asMembersSort :: "json option \<Rightarrow> MembersSort option option" where
  "asMembersSort v =
     (case asOptionalString v of
        None \<Rightarrow> None
      | Some None \<Rightarrow> Some None
      | Some (Some s) \<Rightarrow>
          if s = ''name'' then Some (Some MName)
          else if s = ''latest'' then Some (Some MLatest)
          else if s = ''age'' then Some (Some MAge)
          else None)"

definition asTestsSort :: "json option \<Rightarrow> TestsSort option option" where
  "asTestsSort v =
     (case asOptionalString v of
        None \<Rightarrow> None
      | Some None \<Rightarrow> Some None
      | Some (Some s) \<Rightarrow>
          if s = ''name'' then Some (Some TName)
          else if s = ''latest'' then Some (Some TLatest)
          else if s = ''category'' then Some (Some TCategory)
          else None)"

definition decodePatient :: "json \<Rightarrow> number Patient option" where
  "decodePatient v =
     (case (asString (property ''id'' v), asString (property ''name'' v),
            asOptionalNumber (property ''age'' v)) of
        (Some i, Some n, Some a) \<Rightarrow> Some \<lparr>p_id = i, p_name = n, p_age = a\<rparr>
      | _ \<Rightarrow> None)"

definition decodeReference :: "json \<Rightarrow> number TestReference option" where
  "decodeReference v =
     (case (asString (property ''id'' v), asString (property ''testName'' v),
            asOptionalString (property ''category'' v), asString (property ''unit'' v),
            asOptionalNumber (property ''defaultIdealMin'' v),
            asOptionalNumber (property ''defaultIdealMax'' v)) of
        (Some i, Some n, Some c, Some u, Some lo, Some hi) \<Rightarrow>
          Some \<lparr>ref_id = i, ref_testName = n, ref_category = c, ref_unit = u,
                ref_defaultIdealMin = lo, ref_defaultIdealMax = hi\<rparr>
      | _ \<Rightarrow> None)"

definition decodeReading :: "json \<Rightarrow> number TestReading option" where
  "decodeReading v =
     (case (asString (property ''id'' v), asString (property ''patientId'' v),
            asString (property ''testName'' v), asString (property ''date'' v),
            asOptionalString (property ''reason'' v), asNumber (property ''value'' v),
            asOptionalNumber (property ''idealMin'' v),
            asOptionalNumber (property ''idealMax'' v),
            asString (property ''unit'' v), asOptionalString (property ''notes'' v)) of
        (Some i, Some p, Some n, Some d, Some why, Some x, Some lo, Some hi, Some u, Some ns) \<Rightarrow>
          Some \<lparr>r_id = i, r_patientId = p, r_testName = n, r_date = d, r_reason = why,
                r_value = x, r_idealMin = lo, r_idealMax = hi, r_unit = u, r_notes = ns\<rparr>
      | _ \<Rightarrow> None)"

definition decodePreferences :: "json \<Rightarrow> UserPreferences option" where
  "decodePreferences v =
     (case v of
        JObj props \<Rightarrow>
          (case (asMembersSort (property ''sortMembersBy'' v),
                 asOptionalString (property ''filterMembersQuery'' v),
                 asTestsSort (property ''sortTestsBy'' v),
                 asOptionalString (property ''filterTestsQuery'' v)) of
             (Some a, Some b, Some c, Some d) \<Rightarrow>
               Some \<lparr>sortMembersBy = a, filterMembersQuery = b,
                     sortTestsBy = c, filterTestsQuery = d\<rparr>
           | _ \<Rightarrow> None)
      | _ \<Rightarrow> None)"

text \<open>
  \<^verbatim>\<open>JSON.stringify\<close> followed by \<^verbatim>\<open>JSON.parse\<close>, on the objects the export builds: a
  number that is not finite becomes \<^verbatim>\<open>null\<close>, an optional property without a value is
  left out.
\<close>

definition encodeNumber :: "number \<Rightarrow> json" where
  "encodeNumber x = (case x of Finite r \<Rightarrow> JNum (Finite r) | _ \<Rightarrow> JNull)"

definition optional :: "string \<Rightarrow> ('a \<Rightarrow> json) \<Rightarrow> 'a option \<Rightarrow> (string \<times> json) list" where
  "optional name encode v = (case v of None \<Rightarrow> [] | Some x \<Rightarrow> [(name, encode x)])"

definition encodePatient :: "number Patient \<Rightarrow> json" where
  "encodePatient p =
     JObj ([(''id'', JStr (p_id p)), (''name'', JStr (p_name p))]
           @ optional ''age'' encodeNumber (p_age p))"

definition encodeReference :: "number TestReference \<Rightarrow> json" where
  "encodeReference ref =
     JObj ([(''id'', JStr (ref_id ref)), (''testName'', JStr (ref_testName ref))]
           @ optional ''category'' JStr (ref_category ref)
           @ [(''unit'', JStr (ref_unit ref))]
           @ optional ''defaultIdealMin'' encodeNumber (ref_defaultIdealMin ref)
           @ optional ''defaultIdealMax'' encodeNumber (ref_defaultIdealMax ref))"

definition encodeReading :: "number TestReading \<Rightarrow> json" where
  "encodeReading r =
     JObj ([(''id'', JStr (r_id r)), (''patientId'', JStr (r_patientId r)),
            (''testName'', JStr (r_testName r)), (''date'', JStr (r_date r))]
           @ optional ''reason'' JStr (r_reason r)
           @ [(''value'', encodeNumber (r_value r))]
           @ optional ''idealMin'' encodeNumber (r_idealMin r)
           @ optional ''idealMax'' encodeNumber (r_idealMax r)
           @ [(''unit'', JStr (r_unit r))]
           @ optional ''notes'' JStr (r_notes r))"

definition encodeMembersSort :: "MembersSort \<Rightarrow> json" where
  "encodeMembersSort x =
     JStr (case x of MName \<Rightarrow> ''name'' | MLatest \<Rightarrow> ''latest'' | MAge \<Rightarrow> ''age'')"

definition encodeTestsSort :: "TestsSort \<Rightarrow> json" where
  "encodeTestsSort x =
     JStr (case x of TName \<Rightarrow> ''name'' | TLatest \<Rightarrow> ''latest'' | TCategory \<Rightarrow> ''category'')"

definition encodePreferences :: "UserPreferences \<Rightarrow> json" where
  "encodePreferences prefs =
     JObj (optional ''sortMembersBy'' encodeMembersSort (sortMembersBy prefs)
           @ optional ''filterMembersQuery'' JStr (filterMembersQuery prefs)
           @ optional ''sortTestsBy'' encodeTestsSort (sortTestsBy prefs)
           @ optional ''filterTestsQuery'' JStr (filterTestsQuery prefs))"

definition exportEntireProfile :: "'n HealthTrackerDB \<Rightarrow> 'n UserProfile" where
  "exportEntireProfile s =
     \<lparr>up_preferences = getPreferences s,
      up_patients = getPatients s,
      up_readings = getAllReadings s,
      up_testReferences = getTestReferences s\<rparr>"

definition jsonRoundtrip :: "number UserProfile \<Rightarrow> parse_result" where
  "jsonRoundtrip profile =
     Parsed (JObj [(''patients'', JArr (map encodePatient (up_patients profile))),
                   (''readings'', JArr (map encodeReading (up_readings profile))),
                   (''testReferences'', JArr (map encodeReference (up_testReferences profile))),
                   (''preferences'', encodePreferences (up_preferences profile))])"

text \<open>
  How a run of \<^verbatim>\<open>importProfile\<close> ends: \<open>Finished\<close> with the database it leaves, or
  \<open>Threw\<close> with the error and the database it leaves, or \<open>Unmodelled\<close> when it stores a
  \<open>Foreign\<close> value. The source never calls \<^verbatim>\<open>tx.abort()\<close>, and an exception thrown in
  the function between two requests does not abort the transaction: the puts that were
  awaited before the throw are committed. An error thrown before the transaction is
  opened leaves the database as it was.
\<close>

datatype 'n outcome =
  Finished "'n HealthTrackerDB" | Threw error "'n HealthTrackerDB" | Unmodelled

definition andThen :: "'n outcome \<Rightarrow> ('n HealthTrackerDB \<Rightarrow> 'n outcome) \<Rightarrow> 'n outcome" where
  "andThen r f = (case r of Finished s \<Rightarrow> f s | Threw e s \<Rightarrow> Threw e s | Unmodelled \<Rightarrow> Unmodelled)"

text \<open>
  \<^verbatim>\<open>for (const v of vs) await store.put(v)\<close> on a store with in-line keys: the records
  stored so far and the error of the first put that throws, or \<open>None\<close> at a \<open>Foreign\<close>
  value.
\<close>

fun putElements ::
  "(json \<Rightarrow> 'a option) \<Rightarrow> ('a \<Rightarrow> string) \<Rightarrow> json list \<Rightarrow> 'a list
     \<Rightarrow> (error option \<times> 'a list) option" where
  "putElements decode k [] st = Some (None, st)"
| "putElements decode k (v # vs) st =
     (case inlineKey decode v of
        Record r \<Rightarrow> putElements decode k vs (put k r st)
      | NoKey \<Rightarrow> Some (Some DataError, st)
      | Foreign \<Rightarrow> None)"

definition putIterable ::
  "(json \<Rightarrow> 'a option) \<Rightarrow> ('a \<Rightarrow> string) \<Rightarrow> json \<Rightarrow> 'a list
     \<Rightarrow> (error option \<times> 'a list) option" where
  "putIterable decode k v st =
     (case elements v of
        None \<Rightarrow> Some (Some TypeError, st)
      | Some vs \<Rightarrow> putElements decode k vs st)"

definition stored ::
  "(error option \<times> 'a list) option \<Rightarrow> ('a list \<Rightarrow> 'n HealthTrackerDB) \<Rightarrow> 'n outcome" where
  "stored r update =
     (case r of
        None \<Rightarrow> Unmodelled
      | Some (None, st) \<Rightarrow> Finished (update st)
      | Some (Some e, st) \<Rightarrow> Threw e (update st))"

definition putPatients :: "json \<Rightarrow> number HealthTrackerDB \<Rightarrow> number outcome" where
  "putPatients v s =
     stored (putIterable decodePatient p_id v (patients s)) (\<lambda>st. s\<lparr>patients := st\<rparr>)"

definition putReadings :: "json \<Rightarrow> number HealthTrackerDB \<Rightarrow> number outcome" where
  "putReadings v s =
     stored (putIterable decodeReading r_id v (readings s)) (\<lambda>st. s\<lparr>readings := st\<rparr>)"

definition putReferences :: "json \<Rightarrow> number HealthTrackerDB \<Rightarrow> number outcome" where
  "putReferences v s =
     stored (putIterable decodeReference ref_id v (testReferences s))
       (\<lambda>st. s\<lparr>testReferences := st\<rparr>)"

text \<open>\<^verbatim>\<open>store.put(data.patient)\<close>, one value.\<close>

definition putPatient :: "json \<Rightarrow> number HealthTrackerDB \<Rightarrow> number outcome" where
  "putPatient v s =
     stored (putElements decodePatient p_id [v] (patients s)) (\<lambda>st. s\<lparr>patients := st\<rparr>)"

text \<open>
  \<^verbatim>\<open>store.put(data.preferences, 'user_prefs')\<close>: the key is given, so the put never
  throws. A value that is no preferences object of the declared type is \<open>Foreign\<close>.
\<close>

definition putPreferences :: "json \<Rightarrow> number HealthTrackerDB \<Rightarrow> number outcome" where
  "putPreferences v s =
     (case decodePreferences v of
        Some prefs \<Rightarrow>
          Finished (s\<lparr>preferences := put fst (''user_prefs'', prefs) (preferences s)\<rparr>)
      | None \<Rightarrow> Unmodelled)"

text \<open>
  The bodies of the three branches of \<^verbatim>\<open>importProfile\<close>, each one transaction. The
  branch is entered with the properties it iterates already tested truthy, so \<open>the\<close> is
  applied to a value that is there.
\<close>

definition importFull :: "json \<Rightarrow> number HealthTrackerDB \<Rightarrow> number outcome" where
  "importFull data s =
     andThen (putPatients (the (property ''patients'' data)) s) (\<lambda>s.
     andThen (putReadings (the (property ''readings'' data)) s) (\<lambda>s.
     andThen (if truthy (property ''testReferences'' data)
              then putReferences (the (property ''testReferences'' data)) s
              else Finished s) (\<lambda>s.
     if truthy (property ''preferences'' data)
     then putPreferences (the (property ''preferences'' data)) s
     else Finished s)))"

definition importMember :: "json \<Rightarrow> number HealthTrackerDB \<Rightarrow> number outcome" where
  "importMember data s =
     andThen (putPatient (the (property ''patient'' data)) s) (\<lambda>s.
     putReadings (the (property ''readings'' data)) s)"

definition importReferences :: "json \<Rightarrow> number HealthTrackerDB \<Rightarrow> number outcome" where
  "importReferences data s = putReferences (the (property ''testReferences'' data)) s"

definition importProfile :: "parse_result \<Rightarrow> number HealthTrackerDB \<Rightarrow> number outcome" where
  "importProfile json s =
     (case json of
        ParseError \<Rightarrow> Threw SyntaxError s
      | Parsed data \<Rightarrow>
          if data = JNull then Threw TypeError s
          else if truthy (property ''patients'' data) \<and> truthy (property ''readings'' data)
            then importFull data s
          else if truthy (property ''patient'' data) \<and> truthy (property ''readings'' data)
            then importMember data s
          else if truthy (property ''testReferences'' data)
            then importReferences data s
          else Threw InvalidFormat s)"

text \<open>
  An operation that can throw, carried through from a database: the error is thrown
  before any transaction is opened, so the database is as it was.
\<close>

definition attempt :: "error + 'n tx list \<Rightarrow> 'n HealthTrackerDB \<Rightarrow> error option \<times> 'n HealthTrackerDB" where
  "attempt r s = (case r of Inl e \<Rightarrow> (Some e, s) | Inr txs \<Rightarrow> (None, run txs s))"

section \<open>The bulk-entry form (pages/AddReading.tsx)\<close>

text \<open>
  \<^verbatim>\<open>handleBulkSubmit\<close> turns the pasted text into readings and hands them to
  \<^verbatim>\<open>bulkSaveReadings\<close>. \<^verbatim>\<open>String.split\<close> and \<^verbatim>\<open>String.trim\<close> are modelled on
  ASCII. Three things the source takes from outside are parameters: \<open>uuidv4\<close> (the
  identifier that the \<open>i\<close>-th call returns), \<open>parseFloat\<close>, and \<open>toISOString\<close> for
  \<^verbatim>\<open>new Date(text).toISOString()\<close>, which is \<open>None\<close> when the date is invalid and the
  call throws a RangeError.
\<close>

fun split :: "char \<Rightarrow> string \<Rightarrow> string list" where
  "split sep [] = [[]]"
| "split sep (c # cs) =
     (if c = sep then [] # split sep cs
      else (case split sep cs of
              [] \<Rightarrow> [[c]]
            | w # ws \<Rightarrow> (c # w) # ws))"

definition trim :: "string \<Rightarrow> string" where
  "trim s = rev (dropWhile isSpace (rev (dropWhile isSpace s)))"

text \<open>\<^verbatim>\<open>parts[i] ? parseFloat(parts[i]) : undefined\<close>: a missing or empty part is falsy.\<close>

definition optionalPart :: "(string \<Rightarrow> 'n) \<Rightarrow> string list \<Rightarrow> nat \<Rightarrow> 'n option" where
  "optionalPart parseFloat parts i =
     (if i < length parts \<and> parts ! i \<noteq> [] then Some (parseFloat (parts ! i)) else None)"

definition parseLine ::
  "(nat \<Rightarrow> string) \<Rightarrow> (string \<Rightarrow> 'n) \<Rightarrow> (string \<Rightarrow> string option)
     \<Rightarrow> string \<Rightarrow> nat \<Rightarrow> string \<Rightarrow> error + 'n TestReading" where
  "parseLine uuidv4 parseFloat toISOString pid i line =
     (let parts = map trim (split CHR '','' line) in
      if length parts < 4 then Inl (InvalidLine line)
      else (case toISOString (parts ! 3) of
              None \<Rightarrow> Inl RangeError
            | Some date \<Rightarrow>
                Inr \<lparr>r_id = uuidv4 i,
                     r_patientId = pid,
                     r_testName = parts ! 0,
                     r_date = date,
                     r_reason = None,
                     r_value = parseFloat (parts ! 1),
                     r_idealMin = optionalPart parseFloat parts 4,
                     r_idealMax = optionalPart parseFloat parts 5,
                     r_unit = parts ! 2,
                     r_notes = None\<rparr>))"

text \<open>\<^verbatim>\<open>lines.map(...)\<close>: the first line that throws ends the whole map.\<close>

fun parseLines ::
  "(nat \<Rightarrow> string) \<Rightarrow> (string \<Rightarrow> 'n) \<Rightarrow> (string \<Rightarrow> string option)
     \<Rightarrow> string \<Rightarrow> nat \<Rightarrow> string list \<Rightarrow> error + 'n TestReading list" where
  "parseLines uuidv4 parseFloat toISOString pid i [] = Inr []"
| "parseLines uuidv4 parseFloat toISOString pid i (line # lines) =
     (case parseLine uuidv4 parseFloat toISOString pid i line of
        Inl e \<Rightarrow> Inl e
      | Inr reading \<Rightarrow>
          (case parseLines uuidv4 parseFloat toISOString pid (Suc i) lines of
             Inl e \<Rightarrow> Inl e
           | Inr rs \<Rightarrow> Inr (reading # rs)))"

text \<open>\<^verbatim>\<open>bulkText.split('\n').filter(l => l.trim() !== '')\<close>.\<close>

definition bulkLines :: "string \<Rightarrow> string list" where
  "bulkLines bulkText = filter (\<lambda>l. trim l \<noteq> []) (split CHR 0x0A bulkText)"

text \<open>
  \<open>patientId\<close> is the route parameter \<^verbatim>\<open>id\<close>, \<open>None\<close> when undefined. The handler returns at once when
  it is missing or empty or the text is blank; an error of the parse is caught and shown
  in an alert, here the \<open>Inl\<close> result.
\<close>

definition handleBulkSubmit ::
  "(nat \<Rightarrow> string) \<Rightarrow> (string \<Rightarrow> 'n) \<Rightarrow> (string \<Rightarrow> string option)
     \<Rightarrow> string option \<Rightarrow> string \<Rightarrow> error + 'n tx list" where
  "handleBulkSubmit uuidv4 parseFloat toISOString patientId bulkText =
     (case patientId of
        None \<Rightarrow> Inr []
      | Some pid \<Rightarrow>
          if pid = [] \<or> trim bulkText = [] then Inr []
          else (case parseLines uuidv4 parseFloat toISOString pid 0 (bulkLines bulkText) of
                  Inl e \<Rightarrow> Inl e
                | Inr rs \<Rightarrow> Inr (bulkSaveReadings rs)))"

section \<open>The spec's wording\<close>

text \<open>
  Three notions that the spec states in words, written down from its words so that the
  code can be compared with them.

  The identifier of a derived reference is the test name ``lower-cased, whitespace
  collapsed to a single separator character'': going through the name, a whitespace
  character that starts a run gives the separator and the rest of the run gives nothing.
\<close>

fun specCollapse :: "bool \<Rightarrow> string \<Rightarrow> string" where
  "specCollapse inRun [] = []"
| "specCollapse inRun (c # cs) =
     (if isSpace c
      then (if inRun then specCollapse True cs else CHR ''-'' # specCollapse True cs)
      else c # specCollapse False cs)"

definition specDerivedId :: "string \<Rightarrow> string" where
  "specDerivedId testName = specCollapse False (toLowerCase testName)"

text \<open>
  The shapes of an import payload as the spec words them, tried in the order of section
  4.1: full profile (a patients list and a readings list), single member (a patient object
  and a readings list), references only (a test-references list), anything else.
\<close>

datatype shape = FullProfile | SingleMember | ReferencesOnly | Unrecognised

fun isList :: "json option \<Rightarrow> bool" where
  "isList (Some (JArr xs)) = True"
| "isList v = False"

fun isObject :: "json option \<Rightarrow> bool" where
  "isObject (Some (JObj props)) = True"
| "isObject v = False"

definition specShape :: "json \<Rightarrow> shape" where
  "specShape data =
     (if isList (property ''patients'' data) \<and> isList (property ''readings'' data)
        then FullProfile
      else if isObject (property ''patient'' data) \<and> isList (property ''readings'' data)
        then SingleMember
      else if isList (property ''testReferences'' data) then ReferencesOnly
      else Unrecognised)"

text \<open>
  The same order with the tests that the code applies: a property counts when it is
  truthy.
\<close>

definition testedShape :: "json \<Rightarrow> shape" where
  "testedShape data =
     (if truthy (property ''patients'' data) \<and> truthy (property ''readings'' data)
        then FullProfile
      else if truthy (property ''patient'' data) \<and> truthy (property ''readings'' data)
        then SingleMember
      else if truthy (property ''testReferences'' data) then ReferencesOnly
      else Unrecognised)"

text \<open>
  A malformed line of bulk text (section 6 and the bulk-atomicity property): fewer than
  four comma-separated fields, or a fourth field that is not a parseable date.
\<close>

definition specMalformed :: "(string \<Rightarrow> string option) \<Rightarrow> string \<Rightarrow> bool" where
  "specMalformed toISOString line =
     (length (split CHR '','' line) < 4
      \<or> toISOString (trim (split CHR '','' line ! 3)) = None)"

text \<open>
  The numbers that JSON text can carry are the finite ones. \<open>finiteNumbers\<close> says that
  every number stored in a database is one of them.
\<close>

definition isFinite :: "number \<Rightarrow> bool" where
  "isFinite x = (case x of Finite r \<Rightarrow> True | _ \<Rightarrow> False)"

definition optionalFinite :: "number option \<Rightarrow> bool" where
  "optionalFinite v = (case v of None \<Rightarrow> True | Some x \<Rightarrow> isFinite x)"

definition finitePatient :: "number Patient \<Rightarrow> bool" where
  "finitePatient p = optionalFinite (p_age p)"

definition finiteReading :: "number TestReading \<Rightarrow> bool" where
  "finiteReading r =
     (isFinite (r_value r) \<and> optionalFinite (r_idealMin r) \<and> optionalFinite (r_idealMax r))"

definition finiteReference :: "number TestReference \<Rightarrow> bool" where
  "finiteReference ref =
     (optionalFinite (ref_defaultIdealMin ref) \<and> optionalFinite (ref_defaultIdealMax ref))"

definition finiteNumbers :: "number HealthTrackerDB \<Rightarrow> bool" where
  "finiteNumbers s =
     (list_all finitePatient (patients s) \<and> list_all finiteReading (readings s)
      \<and> list_all finiteReference (testReferences s))"

text \<open>
  A property of the database that an import leaves, however the import ends; nothing is
  said where the model does not describe the result.
\<close>

definition holds :: "('n HealthTrackerDB \<Rightarrow> bool) \<Rightarrow> 'n outcome \<Rightarrow> bool" where
  "holds P r = (case r of Finished s \<Rightarrow> P s | Threw e s \<Rightarrow> P s | Unmodelled \<Rightarrow> True)"

section \<open>The scenario of the spec\<close>

text \<open>
  Patient Alice (id A1) and her reading R1 of test Hemoglobin, 13.5 g/dL on 2026-01-01,
  saved into an empty database. Numbers are reals in the examples.
\<close>

definition alice :: "real Patient" where
  "alice = \<lparr>p_id = ''A1'', p_name = ''Alice'', p_age = None\<rparr>"

definition readingR1 :: "real TestReading" where
  "readingR1 = \<lparr>r_id = ''R1'', r_patientId = ''A1'', r_testName = ''Hemoglobin'',
     r_date = ''2026-01-01'', r_reason = None, r_value = 13.5, r_idealMin = None,
     r_idealMax = None, r_unit = ''g/dL'', r_notes = None\<rparr>"

definition scenarioDB :: "real HealthTrackerDB" where
  "scenarioDB = run (saveReading readingR1) (run (savePatient alice) emptyDB)"

text \<open>
  A second reading of the same test, a reading whose test name differs in case only, and
  a reference for Hemoglobin stored under an identifier that is not the derived one (as a
  seeded, imported or hand-saved reference can be).
\<close>

definition readingR3 :: "real TestReading" where
  "readingR3 = \<lparr>r_id = ''R3'', r_patientId = ''A1'', r_testName = ''Hemoglobin'',
     r_date = ''2026-03-01'', r_reason = None, r_value = 12.9, r_idealMin = Some 12,
     r_idealMax = Some 17, r_unit = ''mg/L'', r_notes = None\<rparr>"

definition readingR2 :: "real TestReading" where
  "readingR2 = \<lparr>r_id = ''R2'', r_patientId = ''A1'', r_testName = ''hemoglobin'',
     r_date = ''2026-02-01'', r_reason = None, r_value = 14, r_idealMin = None,
     r_idealMax = None, r_unit = ''g/dL'', r_notes = None\<rparr>"

definition hemoglobinRef :: "real TestReference" where
  "hemoglobinRef = \<lparr>ref_id = ''ref-hb'', ref_testName = ''Hemoglobin'',
     ref_category = Some ''Blood'', ref_unit = ''g/dL'', ref_defaultIdealMin = Some 12,
     ref_defaultIdealMax = Some 17\<rparr>"

text \<open>The preferences of the spec's merge example.\<close>

definition prefsNameAbc :: UserPreferences where
  "prefsNameAbc = \<lparr>sortMembersBy = Some MName, filterMembersQuery = Some ''abc'',
     sortTestsBy = None, filterTestsQuery = None\<rparr>"

definition prefsAge :: UserPreferences where
  "prefsAge = \<lparr>sortMembersBy = Some MAge, filterMembersQuery = None,
     sortTestsBy = None, filterTestsQuery = None\<rparr>"

definition prefsDB :: "real HealthTrackerDB" where
  "prefsDB = run (savePreferences prefsNameAbc) scenarioDB"

text \<open>
  Bulk text of two lines, once well-formed and once with a date that does not parse, and
  stand-ins for the three parameters of the form.
\<close>

definition uuidExample :: "nat \<Rightarrow> string" where
  "uuidExample i = ''uuid-'' @ replicate i CHR ''i''"

definition parseFloatExample :: "string \<Rightarrow> real" where
  "parseFloatExample t = real (foldl (\<lambda>n c. 10 * n + (of_char c - 48)) 0 t)"

definition toISOStringExample :: "string \<Rightarrow> string option" where
  "toISOStringExample t = (if length t = 10 then Some (t @ ''T00:00:00.000Z'') else None)"

definition goodText :: string where
  "goodText = ''Hemoglobin, 13, g/dL, 2026-01-01'' @ [CHR 0x0A]
     @ ''Blood Sugar, 110, mg/dL, 2026-02-21, 70, 100''"

definition badText :: string where
  "badText = ''Hemoglobin, 13, g/dL, 2026-01-01'' @ [CHR 0x0A]
     @ ''Blood Sugar, 110, mg/dL, soon''"

text \<open>
  Databases and payloads for the import, over \<open>number\<close>: a clinic database with a
  patient, a reading, its derived reference and stored preferences; the database that the
  bulk form leaves when the value of a line is not a number, with a \<open>parseFloat\<close> that
  reads digits and gives NaN otherwise; a payload whose \<^verbatim>\<open>readings\<close> is an object and
  no list; one whose \<^verbatim>\<open>readings\<close> is null; one with both \<^verbatim>\<open>patients\<close> and
  \<^verbatim>\<open>patient\<close>.
\<close>

definition aliceN :: "number Patient" where
  "aliceN = \<lparr>p_id = ''A1'', p_name = ''Alice'', p_age = Some (Finite 34)\<rparr>"

definition bobN :: "number Patient" where
  "bobN = \<lparr>p_id = ''B1'', p_name = ''Bob'', p_age = None\<rparr>"

definition readingN1 :: "number TestReading" where
  "readingN1 = \<lparr>r_id = ''R1'', r_patientId = ''B1'', r_testName = ''Hemoglobin'',
     r_date = ''2026-01-01'', r_reason = Some ''checkup'', r_value = Finite 13.5,
     r_idealMin = Some (Finite 12), r_idealMax = None, r_unit = ''g/dL'', r_notes = None\<rparr>"


definition clinicDB :: "number HealthTrackerDB" where
  "clinicDB = run (savePreferences prefsNameAbc) (run (saveReading readingN1)
     (run (savePatient bobN) emptyDB))"

definition parseFloatDigits :: "string \<Rightarrow> number" where
  "parseFloatDigits t =
     (if t \<noteq> [] \<and> list_all (\<lambda>c. CHR ''0'' \<le> c \<and> c \<le> CHR ''9'') t
      then Finite (real (foldl (\<lambda>n c. 10 * n + (of_char c - 48)) 0 t))
      else NaN)"

definition nanText :: string where
  "nanText = ''Hemoglobin, abc, g/dL, 2026-01-01''"

definition nanDB :: "number HealthTrackerDB" where
  "nanDB = snd (attempt (handleBulkSubmit uuidExample parseFloatDigits toISOStringExample
     (Some ''A1'') nanText) (run (savePatient aliceN) emptyDB))"




section \<open>Properties of object stores\<close>

lemma put_member: "v \<in> set (put k v xs)"
  by (induction xs) auto

lemma set_put_subset: "set (put k v xs) \<subseteq> insert v (set xs)"
  by (induction xs) auto

lemma put_keeps_others: "x \<in> set xs \<Longrightarrow> k x \<noteq> k v \<Longrightarrow> x \<in> set (put k v xs)"
  by (induction xs) auto

lemma keys_put: "k ` set (put k v xs) = insert (k v) (k ` set xs)"
  by (induction xs) auto

lemma key_ordered_distinct: "key_ordered k xs \<Longrightarrow> distinct (map k xs)"
  by (simp add: key_ordered_def sorted_wrt_map[symmetric] strict_sorted_iff)

lemma key_ordered_same_key:
  "key_ordered k xs \<Longrightarrow> x \<in> set xs \<Longrightarrow> y \<in> set xs \<Longrightarrow> k x = k y \<Longrightarrow> x = y"
  using key_ordered_distinct[of k xs] by (auto simp: distinct_map inj_on_def)

lemma key_ordered_put: "key_ordered k xs \<Longrightarrow> key_ordered k (put k v xs)"
proof (induction xs)
  case Nil
  then show ?case by (simp add: key_ordered_def)
next
  case (Cons x xs)
  have "\<forall>y\<in>set (put k v xs). k x < k y" if "k x < k v"
    using that Cons.prems set_put_subset[of k v xs] by (auto simp: key_ordered_def)
  with Cons show ?case
    by (auto simp: key_ordered_def)
qed

lemma put_same: "key_ordered k xs \<Longrightarrow> v \<in> set xs \<Longrightarrow> put k v xs = xs"
proof (induction xs)
  case Nil
  then show ?case by simp
next
  case (Cons x xs)
  show ?case
  proof (cases "v = x")
    case True
    then show ?thesis by simp
  next
    case False
    with Cons.prems have v: "v \<in> set xs" and lt: "k x < k v"
      by (auto simp: key_ordered_def)
    from Cons.prems have "key_ordered k xs" by (simp add: key_ordered_def)
    with Cons.IH v have "put k v xs = xs" by simp
    with lt show ?thesis by auto
  qed
qed

lemma put_each_same: "key_ordered k xs \<Longrightarrow> set vs \<subseteq> set xs \<Longrightarrow> put_each k vs xs = xs"
  by (induction vs) (simp_all add: put_each_def put_same)

lemma key_ordered_put_each: "key_ordered k xs \<Longrightarrow> key_ordered k (put_each k vs xs)"
  by (induction vs arbitrary: xs) (simp_all add: put_each_def key_ordered_put)

lemma filter_put_new:
  "filter (\<lambda>x. f x = i) xs = [] \<Longrightarrow> f v = i \<Longrightarrow> filter (\<lambda>x. f x = i) (put k v xs) = [v]"
  by (induction xs) (auto split: if_splits)

lemma key_ordered_filter: "key_ordered k xs \<Longrightarrow> key_ordered k (filter P xs)"
  by (simp add: key_ordered_def sorted_wrt_filter)

lemma deleteByCursor_filter:
  "key_ordered r_id rs \<Longrightarrow> deleteByCursor pid rs = filter (\<lambda>r. r_patientId r \<noteq> pid) rs"
proof (induction pid rs rule: deleteByCursor.induct)
  case (1 pid rs)
  show ?case
  proof (cases "find (\<lambda>r. r_patientId r = pid) rs")
    case None
    then have "filter (\<lambda>r. r_patientId r \<noteq> pid) rs = rs"
      by (auto simp: find_None_iff filter_id_conv)
    with None show ?thesis
      by (simp add: deleteByCursor.simps[of pid rs])
  next
    case (Some r)
    then have r: "r \<in> set rs" "r_patientId r = pid"
      by (auto simp: find_Some_iff)
    have ko: "key_ordered r_id (delete_key r_id (r_id r) rs)"
      using "1.prems" by (simp add: delete_key_def key_ordered_filter)
    have "\<And>x. x \<in> set rs \<Longrightarrow> r_patientId x \<noteq> pid \<Longrightarrow> r_id x \<noteq> r_id r"
      using key_ordered_same_key[OF "1.prems" _ r(1)] r(2) by blast
    then have "filter (\<lambda>x. r_patientId x \<noteq> pid) (delete_key r_id (r_id r) rs)
        = filter (\<lambda>x. r_patientId x \<noteq> pid) rs"
      by (auto simp: delete_key_def intro: filter_cong)
    with "1.IH"[OF Some ko] Some show ?thesis
      by (simp add: deleteByCursor.simps[of pid rs])
  qed
qed


lemma deleteByCursor_no_match:
  "getAllFromIndex r_patientId pid (deleteByCursor pid rs) = []"
proof (induction pid rs rule: deleteByCursor.induct)
  case (1 pid rs)
  show ?case
  proof (cases "find (\<lambda>r. r_patientId r = pid) rs")
    case None
    then have "filter (\<lambda>r. r_patientId r = pid) rs = []"
      by (auto simp: find_None_iff filter_empty_conv)
    with None show ?thesis
      by (simp add: deleteByCursor.simps[of pid rs] getAllFromIndex_def)
  next
    case (Some r)
    with 1 show ?thesis
      by (simp add: deleteByCursor.simps[of pid rs])
  qed
qed

section \<open>Evaluating the scenario\<close>

lemma scenarioDB_eq:
  "scenarioDB = \<lparr>patients = [alice], readings = [readingR1],
     testReferences = [\<lparr>ref_id = ''hemoglobin'', ref_testName = ''Hemoglobin'',
        ref_category = None, ref_unit = ''g/dL'', ref_defaultIdealMin = None,
        ref_defaultIdealMax = None\<rparr>],
     preferences = []\<rparr>"
  by (simp add: scenarioDB_def run_def savePatient_def saveReading_def putReading_def
      deriveReference_def derivedReference_def derivedId_def toLowerCase_def
      toLowerCase_char_def isSpace_def getAllFromIndex_def emptyDB_def alice_def readingR1_def)

section \<open>Cascading delete\<close>

lemma run_deletePatient:
  "run (deletePatient pid) s =
     s\<lparr>patients := delete_key p_id pid (patients s), readings := deleteByCursor pid (readings s)\<rparr>"
  by (simp add: run_def deletePatient_def)

lemma interrupted_deletePatient:
  "interrupted n (deletePatient pid) s =
     (if n = 0 then s
      else if n = 1 then s\<lparr>patients := delete_key p_id pid (patients s)\<rparr>
      else run (deletePatient pid) s)"
  by (cases n; cases "n - 1") (auto simp: interrupted_def run_def deletePatient_def)

text \<open>
  Claim C6. For every patient id and every database, whatever the number of readings of
  that patient, once \<open>deletePatient\<close> has completed no reading with that patient id is
  left in \<open>readings\<close> and no patient with that id is left in \<open>patients\<close>.
\<close>

theorem deletePatient_cascade:
  "getPatientReadings pid (run (deletePatient pid) s) = []
   \<and> pid \<notin> p_id ` set (getPatients (run (deletePatient pid) s))"
  by (auto simp: run_deletePatient getPatientReadings_def getPatients_def
      deleteByCursor_no_match delete_key_def)

theorem deletePatient_cascade_witness:
  "getPatientReadings ''A1'' scenarioDB = [readingR1]
   \<and> getPatientReadings ''A1'' (run (deletePatient ''A1'') scenarioDB) = []
   \<and> ''A1'' \<notin> p_id ` set (getPatients (run (deletePatient ''A1'') scenarioDB))"
  using deletePatient_cascade [of "''A1''" scenarioDB]
  by (simp add: scenarioDB_eq getPatientReadings_def getAllFromIndex_def readingR1_def)

text \<open>
  The cascade leaves every other patient and every reading of another patient in place.
\<close>

lemma deletePatient_frame:
  assumes "wf_db s"
  shows "patients (run (deletePatient pid) s) = filter (\<lambda>p. p_id p \<noteq> pid) (patients s)"
    and "readings (run (deletePatient pid) s) = filter (\<lambda>r. r_patientId r \<noteq> pid) (readings s)"
  using assms by (simp_all add: run_deletePatient delete_key_def deleteByCursor_filter wf_db_def)

text \<open>
  Claim C9. For every patient id, \<open>deletePatient\<close> leaves \<open>testReferences\<close> as it was,
  when it completes and also when it stops after any number of its transactions.
\<close>

theorem deletePatient_keeps_references:
  "testReferences (run (deletePatient pid) s) = testReferences s
   \<and> testReferences (interrupted n (deletePatient pid) s) = testReferences s"
  by (simp add: run_deletePatient interrupted_deletePatient)

theorem deletePatient_keeps_references_witness:
  "map ref_testName (testReferences (run (deletePatient ''A1'') scenarioDB)) = [''Hemoglobin'']
   \<and> testReferences (interrupted 1 (deletePatient ''A1'') scenarioDB) = testReferences scenarioDB"
  using deletePatient_keeps_references [of "''A1''" scenarioDB 1]
  by (simp add: scenarioDB_eq)

text \<open>
  Claim C1. \<open>deletePatient\<close> is two transactions, not one: the patient record is deleted
  and committed before the transaction that deletes the readings is opened. In the
  scenario, stopping between the two leaves a database, seen by every later read, in which
  patient A1 is gone and reading R1 of A1 is still there.
\<close>

theorem deletePatient_half_deleted:
  "length (deletePatient ''A1'' :: real tx list) = 2
   \<and> getPatients (interrupted 1 (deletePatient ''A1'') scenarioDB) = []
   \<and> getPatientReadings ''A1'' (interrupted 1 (deletePatient ''A1'') scenarioDB) = [readingR1]"
proof -
  have "length (deletePatient ''A1'' :: real tx list) = 2"
    by (simp add: deletePatient_def)
  moreover have "interrupted 1 (deletePatient ''A1'') scenarioDB = scenarioDB\<lparr>patients := []\<rparr>"
    by (simp add: interrupted_deletePatient scenarioDB_eq delete_key_def alice_def)
  ultimately show ?thesis
    by (simp add: scenarioDB_eq getPatients_def getPatientReadings_def getAllFromIndex_def
        readingR1_def)
qed

section \<open>Derived references\<close>

lemma collapse_in_run: "specCollapse True cs = specCollapse False (dropWhile isSpace cs)"
  by (induction cs) simp_all

lemma replaceSpaces_collapse: "replaceSpaces s = specCollapse False s"
  by (induction s rule: replaceSpaces.induct) (simp_all add: collapse_in_run)

lemma derivedId_spec: "derivedId testName = specDerivedId testName"
  by (simp add: derivedId_def specDerivedId_def replaceSpaces_collapse)

lemma replaceSpaces_no_space: "c \<in> set (replaceSpaces s) \<Longrightarrow> \<not> isSpace c"
proof (induction s rule: replaceSpaces.induct)
  case 1
  then show ?case by simp
next
  case (2 d ds)
  then show ?case
    by (auto simp: isSpace_def split: if_splits)
qed

lemma run_saveReading:
  "run (saveReading reading) s = deriveReference reading (putReading reading s)"
  by (simp add: run_def saveReading_def)

lemma testReferences_saveReading_new:
  "getAllFromIndex ref_testName (r_testName reading) (testReferences s) = [] \<Longrightarrow>
   testReferences (run (saveReading reading) s)
     = put ref_id (derivedReference reading) (testReferences s)"
  by (simp add: run_saveReading deriveReference_def putReading_def)

lemma testReferences_saveReading_known:
  "getAllFromIndex ref_testName (r_testName reading) (testReferences s) \<noteq> [] \<Longrightarrow>
   testReferences (run (saveReading reading) s) = testReferences s"
  by (simp add: run_saveReading deriveReference_def putReading_def)

lemma derived_not_stored:
  "getAllFromIndex ref_testName (r_testName reading) refs = [] \<Longrightarrow>
   derivedReference reading \<notin> set refs"
  by (auto simp: getAllFromIndex_def filter_empty_conv derivedReference_def)

lemma put_new_only: "v \<notin> set xs \<Longrightarrow> set (put k v xs) - set xs = {v}"
  using put_member[of v k xs] set_put_subset[of k v xs] by auto

text \<open>
  Claim C3. When no reference has the test name of reading \<open>r\<close>, saving \<open>r\<close> adds exactly
  one record to the references that was not there before, the derived reference; it is
  the only reference with that test name; its identifier is the test name lower-cased
  with every run of whitespace collapsed to one \<^verbatim>\<open>-\<close>; its unit and default ideal
  bounds are those of \<open>r\<close>. Saving a second reading \<open>r2\<close> with the same test name then
  leaves the references as they are.
\<close>

theorem saveReading_derives_reference:
  assumes "getAllFromIndex ref_testName (r_testName r) (getTestReferences s) = []"
    and "r_testName r2 = r_testName r"
  shows "set (getTestReferences (run (saveReading r) s)) - set (getTestReferences s)
           = {derivedReference r}
     \<and> getAllFromIndex ref_testName (r_testName r) (getTestReferences (run (saveReading r) s))
           = [derivedReference r]
     \<and> ref_id (derivedReference r) = specDerivedId (r_testName r)
     \<and> ref_testName (derivedReference r) = r_testName r
     \<and> ref_unit (derivedReference r) = r_unit r
     \<and> ref_defaultIdealMin (derivedReference r) = r_idealMin r
     \<and> ref_defaultIdealMax (derivedReference r) = r_idealMax r
     \<and> getTestReferences (run (saveReading r2) (run (saveReading r) s))
           = getTestReferences (run (saveReading r) s)"
proof -
  let ?s' = "run (saveReading r) s"
  from assms(1) have none: "getAllFromIndex ref_testName (r_testName r) (testReferences s) = []"
    by (simp add: getTestReferences_def)
  then have refs': "testReferences ?s' = put ref_id (derivedReference r) (testReferences s)"
    by (rule testReferences_saveReading_new)
  have new: "set (testReferences ?s') - set (testReferences s) = {derivedReference r}"
    unfolding refs' using derived_not_stored[OF none] by (rule put_new_only)
  have one: "getAllFromIndex ref_testName (r_testName r) (testReferences ?s') = [derivedReference r]"
    unfolding refs' getAllFromIndex_def
    using none by (intro filter_put_new) (simp_all add: getAllFromIndex_def derivedReference_def)
  then have "getAllFromIndex ref_testName (r_testName r2) (testReferences ?s') \<noteq> []"
    using assms(2) by simp
  then have again: "testReferences (run (saveReading r2) ?s') = testReferences ?s'"
    by (rule testReferences_saveReading_known)
  have ident: "ref_id (derivedReference r) = specDerivedId (r_testName r)"
    by (simp add: derivedReference_def derivedId_spec)
  show ?thesis
    using new one again ident by (simp add: getTestReferences_def derivedReference_def)
qed

theorem saveReading_derives_reference_witness:
  "getTestReferences (run (savePatient alice) emptyDB) = []
   \<and> getTestReferences (run (saveReading readingR1) (run (savePatient alice) emptyDB))
       = [\<lparr>ref_id = ''hemoglobin'', ref_testName = ''Hemoglobin'', ref_category = None,
           ref_unit = ''g/dL'', ref_defaultIdealMin = None, ref_defaultIdealMax = None\<rparr>]
   \<and> getTestReferences (run (saveReading readingR3)
        (run (saveReading readingR1) (run (savePatient alice) emptyDB)))
       = getTestReferences (run (saveReading readingR1) (run (savePatient alice) emptyDB))"
proof -
  have none: "getAllFromIndex ref_testName (r_testName readingR1)
      (getTestReferences (run (savePatient alice) emptyDB)) = []"
    by code_simp
  have same: "r_testName readingR3 = r_testName readingR1"
    by (simp add: readingR1_def readingR3_def)
  have "getTestReferences (run (saveReading readingR3)
        (run (saveReading readingR1) (run (savePatient alice) emptyDB)))
       = getTestReferences (run (saveReading readingR1) (run (savePatient alice) emptyDB))"
    using saveReading_derives_reference [OF none same] by blast
  moreover have "getTestReferences (run (savePatient alice) emptyDB) = []"
    by code_simp
  moreover have "getTestReferences (run (saveReading readingR1) (run (savePatient alice) emptyDB))
       = [\<lparr>ref_id = ''hemoglobin'', ref_testName = ''Hemoglobin'', ref_category = None,
           ref_unit = ''g/dL'', ref_defaultIdealMin = None, ref_defaultIdealMax = None\<rparr>]"
    by code_simp
  ultimately show ?thesis by blast
qed

section \<open>Test names that differ in case\<close>


lemma variant_kept:
  assumes "x \<in> set (testReferences s)" and "ref_testName x = r_testName r1"
    and "ref_id x \<noteq> derivedId (r_testName r2)"
    and "getAllFromIndex ref_testName (r_testName r2) (testReferences s) = []"
  shows "x \<in> set (testReferences (run (saveReading r2) (run (saveReading r1) s)))"
    and "derivedReference r2 \<in> set (testReferences (run (saveReading r2) (run (saveReading r1) s)))"
proof -
  let ?s1 = "run (saveReading r1) s"
  from assms(1,2) have "getAllFromIndex ref_testName (r_testName r1) (testReferences s) \<noteq> []"
    by (auto simp: getAllFromIndex_def filter_empty_conv)
  then have same: "testReferences ?s1 = testReferences s"
    by (rule testReferences_saveReading_known)
  with assms(4) have refs: "testReferences (run (saveReading r2) ?s1)
      = put ref_id (derivedReference r2) (testReferences s)"
    by (simp add: testReferences_saveReading_new)
  from assms(3) have "ref_id x \<noteq> ref_id (derivedReference r2)"
    by (simp add: derivedReference_def)
  with assms(1) show "x \<in> set (testReferences (run (saveReading r2) ?s1))"
    unfolding refs by (rule put_keeps_others)
  show "derivedReference r2 \<in> set (testReferences (run (saveReading r2) ?s1))"
    unfolding refs by (rule put_member)
qed



lemma variant_eval:
  "getTestReferences (run (saveReading readingR2) (run (saveReading readingR1)
      (run (saveTestReference hemoglobinRef) emptyDB)))
    = [derivedReference readingR2, hemoglobinRef]"
  by code_simp

text \<open>
  With a reference for the first spelling already stored under an identifier that is not
  the derived one, the two readings do leave two references, one for each spelling.
\<close>

lemma stored_reference_duplicated:
  "map ref_testName (getTestReferences (run (saveReading readingR2)
      (run (saveReading readingR1) (run (saveTestReference hemoglobinRef) emptyDB))))
    = [r_testName readingR2, r_testName readingR1]"
  unfolding variant_eval by (simp add: derivedReference_def hemoglobinRef_def readingR1_def)




section \<open>Preferences\<close>

lemma find_put: "find (\<lambda>x. k x = k v) (put k v xs) = Some v"
  by (induction xs) auto

lemma getPreferences_put:
  "getPreferences (s\<lparr>preferences := put fst (''user_prefs'', prefs) (preferences s)\<rparr>) = prefs"
  using find_put[of fst "(''user_prefs'', prefs)" "preferences s"]
  by (simp add: getPreferences_def get_def)

lemma run_savePreferences:
  "run (savePreferences prefs) s =
     s\<lparr>preferences := put fst (''user_prefs'', spread (getPreferences s) prefs) (preferences s)\<rparr>"
  by (simp add: run_def savePreferences_def)

lemma getPreferences_savePreferences:
  "getPreferences (run (savePreferences prefs) s) = spread (getPreferences s) prefs"
  by (simp add: run_savePreferences getPreferences_put)

text \<open>
  Claim C8. For every database and every preferences object given to \<open>savePreferences\<close>,
  each of the four fields read back afterwards is the given value when the object has the
  field, and the value read before when it has not.
\<close>

theorem savePreferences_merges:
  "(case sortMembersBy prefs of
      Some v \<Rightarrow> sortMembersBy (getPreferences (run (savePreferences prefs) s)) = Some v
    | None \<Rightarrow> sortMembersBy (getPreferences (run (savePreferences prefs) s))
               = sortMembersBy (getPreferences s))
   \<and> (case filterMembersQuery prefs of
      Some v \<Rightarrow> filterMembersQuery (getPreferences (run (savePreferences prefs) s)) = Some v
    | None \<Rightarrow> filterMembersQuery (getPreferences (run (savePreferences prefs) s))
               = filterMembersQuery (getPreferences s))
   \<and> (case sortTestsBy prefs of
      Some v \<Rightarrow> sortTestsBy (getPreferences (run (savePreferences prefs) s)) = Some v
    | None \<Rightarrow> sortTestsBy (getPreferences (run (savePreferences prefs) s))
               = sortTestsBy (getPreferences s))
   \<and> (case filterTestsQuery prefs of
      Some v \<Rightarrow> filterTestsQuery (getPreferences (run (savePreferences prefs) s)) = Some v
    | None \<Rightarrow> filterTestsQuery (getPreferences (run (savePreferences prefs) s))
               = filterTestsQuery (getPreferences s))"
  by (simp add: getPreferences_savePreferences spread_def split: option.split)

theorem savePreferences_merges_witness:
  "getPreferences prefsDB = prefsNameAbc
   \<and> getPreferences (run (savePreferences prefsAge) prefsDB)
      = \<lparr>sortMembersBy = Some MAge, filterMembersQuery = Some ''abc'',
          sortTestsBy = None, filterTestsQuery = None\<rparr>"
proof -
  have before: "getPreferences prefsDB = prefsNameAbc"
    by code_simp
  let ?after = "getPreferences (run (savePreferences prefsAge) prefsDB)"
  from savePreferences_merges [of prefsAge prefsDB]
  have "sortMembersBy ?after = Some MAge"
    and "filterMembersQuery ?after = filterMembersQuery (getPreferences prefsDB)"
    and "sortTestsBy ?after = sortTestsBy (getPreferences prefsDB)"
    and "filterTestsQuery ?after = filterTestsQuery (getPreferences prefsDB)"
    by (simp_all add: prefsAge_def)
  with before have "?after = \<lparr>sortMembersBy = Some MAge, filterMembersQuery = Some ''abc'',
      sortTestsBy = None, filterTestsQuery = None\<rparr>"
    by (cases ?after) (simp add: prefsNameAbc_def)
  with before show ?thesis by simp
qed

section \<open>Export and import\<close>

subsection \<open>Decoding what the export encodes\<close>

lemma asOptionalNumber_encode:
  "optionalFinite v \<Longrightarrow> asOptionalNumber (map_option encodeNumber v) = Some v"
  by (auto simp: optionalFinite_def isFinite_def encodeNumber_def split: option.splits number.splits)

lemma asOptionalString_encode: "asOptionalString (map_option JStr v) = Some v"
  by (cases v) simp_all

lemma asNumber_encode: "isFinite x \<Longrightarrow> asNumber (Some (encodeNumber x)) = Some x"
  by (auto simp: isFinite_def encodeNumber_def split: number.splits)

lemma properties_encodePatient:
  "property ''id'' (encodePatient p) = Some (JStr (p_id p))"
  "property ''name'' (encodePatient p) = Some (JStr (p_name p))"
  "property ''age'' (encodePatient p) = map_option encodeNumber (p_age p)"
  by (cases "p_age p"; simp add: encodePatient_def property_def optional_def)+

lemma decode_encodePatient: "finitePatient p \<Longrightarrow> decodePatient (encodePatient p) = Some p"
  by (simp add: decodePatient_def properties_encodePatient finitePatient_def
      asOptionalNumber_encode)

lemma properties_encodeReference:
  "property ''id'' (encodeReference ref) = Some (JStr (ref_id ref))"
  "property ''testName'' (encodeReference ref) = Some (JStr (ref_testName ref))"
  "property ''category'' (encodeReference ref) = map_option JStr (ref_category ref)"
  "property ''unit'' (encodeReference ref) = Some (JStr (ref_unit ref))"
  "property ''defaultIdealMin'' (encodeReference ref)
     = map_option encodeNumber (ref_defaultIdealMin ref)"
  "property ''defaultIdealMax'' (encodeReference ref)
     = map_option encodeNumber (ref_defaultIdealMax ref)"
  by (cases "ref_category ref"; cases "ref_defaultIdealMin ref"; cases "ref_defaultIdealMax ref";
      simp add: encodeReference_def property_def optional_def)+

lemma decode_encodeReference:
  "finiteReference ref \<Longrightarrow> decodeReference (encodeReference ref) = Some ref"
  by (simp add: decodeReference_def properties_encodeReference finiteReference_def
      asOptionalNumber_encode asOptionalString_encode)

lemma properties_encodeReading:
  "property ''id'' (encodeReading r) = Some (JStr (r_id r))"
  "property ''patientId'' (encodeReading r) = Some (JStr (r_patientId r))"
  "property ''testName'' (encodeReading r) = Some (JStr (r_testName r))"
  "property ''date'' (encodeReading r) = Some (JStr (r_date r))"
  "property ''reason'' (encodeReading r) = map_option JStr (r_reason r)"
  "property ''value'' (encodeReading r) = Some (encodeNumber (r_value r))"
  "property ''idealMin'' (encodeReading r) = map_option encodeNumber (r_idealMin r)"
  "property ''idealMax'' (encodeReading r) = map_option encodeNumber (r_idealMax r)"
  "property ''unit'' (encodeReading r) = Some (JStr (r_unit r))"
  "property ''notes'' (encodeReading r) = map_option JStr (r_notes r)"
  by (cases "r_reason r"; cases "r_idealMin r"; cases "r_idealMax r"; cases "r_notes r";
      simp add: encodeReading_def property_def optional_def)+

lemma decode_encodeReading:
  "finiteReading r \<Longrightarrow> decodeReading (encodeReading r) = Some r"
  by (simp add: decodeReading_def properties_encodeReading finiteReading_def
      asOptionalNumber_encode asOptionalString_encode asNumber_encode)

lemma asMembersSort_encode: "asMembersSort (map_option encodeMembersSort v) = Some v"
  by (cases v; simp add: asMembersSort_def encodeMembersSort_def split: MembersSort.split)

lemma asTestsSort_encode: "asTestsSort (map_option encodeTestsSort v) = Some v"
  by (cases v; simp add: asTestsSort_def encodeTestsSort_def split: TestsSort.split)

lemma properties_encodePreferences:
  "property ''sortMembersBy'' (encodePreferences prefs)
     = map_option encodeMembersSort (sortMembersBy prefs)"
  "property ''filterMembersQuery'' (encodePreferences prefs)
     = map_option JStr (filterMembersQuery prefs)"
  "property ''sortTestsBy'' (encodePreferences prefs)
     = map_option encodeTestsSort (sortTestsBy prefs)"
  "property ''filterTestsQuery'' (encodePreferences prefs)
     = map_option JStr (filterTestsQuery prefs)"
  by (cases "sortMembersBy prefs"; cases "filterMembersQuery prefs"; cases "sortTestsBy prefs";
      cases "filterTestsQuery prefs";
      simp add: encodePreferences_def property_def optional_def)+

lemma decode_encodePreferences: "decodePreferences (encodePreferences prefs) = Some prefs"
proof -
  obtain props where "encodePreferences prefs = JObj props"
    by (simp add: encodePreferences_def)
  then show ?thesis
    using properties_encodePreferences[of prefs]
    by (simp add: decodePreferences_def asMembersSort_encode asTestsSort_encode
        asOptionalString_encode)
qed

lemma inlineKey_Record:
  "property ''id'' v = Some (JStr i) \<Longrightarrow> decode v = Some r \<Longrightarrow> inlineKey decode v = Record r"
  by (simp add: inlineKey_def)

lemma putElements_encoded:
  assumes "\<And>x. x \<in> set xs \<Longrightarrow> inlineKey decode (enc x) = Record x"
  shows "putElements decode k (map enc xs) st = Some (None, put_each k xs st)"
  using assms
  by (induction xs arbitrary: st) (simp_all add: put_each_def)

lemma putElements_patients:
  "list_all finitePatient ps \<Longrightarrow>
   putElements decodePatient p_id (map encodePatient ps) st = Some (None, put_each p_id ps st)"
  by (intro putElements_encoded inlineKey_Record[where i = "p_id _"])
     (simp_all add: properties_encodePatient decode_encodePatient list_all_iff)

lemma putElements_readings:
  "list_all finiteReading rs \<Longrightarrow>
   putElements decodeReading r_id (map encodeReading rs) st = Some (None, put_each r_id rs st)"
  by (intro putElements_encoded inlineKey_Record[where i = "r_id _"])
     (simp_all add: properties_encodeReading decode_encodeReading list_all_iff)

lemma putElements_references:
  "list_all finiteReference refs \<Longrightarrow>
   putElements decodeReference ref_id (map encodeReference refs) st
     = Some (None, put_each ref_id refs st)"
  by (intro putElements_encoded inlineKey_Record[where i = "ref_id _"])
     (simp_all add: properties_encodeReference decode_encodeReference list_all_iff)

lemma truthy_encodePreferences: "truthy (Some (encodePreferences prefs))"
  by (simp add: encodePreferences_def)

lemma importProfile_export:
  assumes "finiteNumbers s"
  shows "importProfile (jsonRoundtrip (exportEntireProfile s)) s
     = Finished (s\<lparr>patients := put_each p_id (patients s) (patients s),
         readings := put_each r_id (readings s) (readings s),
         testReferences := put_each ref_id (testReferences s) (testReferences s),
         preferences := put fst (''user_prefs'', getPreferences s) (preferences s)\<rparr>)"
  using assms
  by (simp add: importProfile_def jsonRoundtrip_def exportEntireProfile_def getPatients_def
      getAllReadings_def getTestReferences_def property_def importFull_def andThen_def
      putPatients_def putReadings_def putReferences_def putPreferences_def putIterable_def
      stored_def finiteNumbers_def putElements_patients putElements_readings
      putElements_references truthy_encodePreferences decode_encodePreferences)

lemma put_stored_preferences:
  assumes "key_ordered fst xs" and "get fst i xs = Some (key, prefs)"
  shows "put fst (i, prefs) xs = xs"
proof -
  from assms(2) have "(key, prefs) \<in> set xs" "key = i"
    by (auto simp: get_def find_Some_iff dest: arg_cong[where f = fst])
  with assms(1) show ?thesis by (simp add: put_same)
qed

subsection \<open>The round trip\<close>

text \<open>
  Claim C2, amended. For every database whose stores are in key order and whose stored
  numbers are all finite, importing the profile that \<open>exportEntireProfile\<close> has just
  produced finishes without an error, and afterwards the four read operations
  \<open>getPatients\<close>, \<open>getAllReadings\<close>, \<open>getTestReferences\<close> and \<open>getPreferences\<close>
  return what they returned before.
\<close>

theorem export_import_roundtrip:
  assumes "wf_db s" and "finiteNumbers s"
  shows "\<exists>s'. importProfile (jsonRoundtrip (exportEntireProfile s)) s = Finished s'
     \<and> getPatients s' = getPatients s
     \<and> getAllReadings s' = getAllReadings s
     \<and> getTestReferences s' = getTestReferences s
     \<and> getPreferences s' = getPreferences s"
proof -
  let ?s' = "s\<lparr>preferences := put fst (''user_prefs'', getPreferences s) (preferences s)\<rparr>"
  from assms(1) have same: "put_each p_id (patients s) (patients s) = patients s"
    "put_each r_id (readings s) (readings s) = readings s"
    "put_each ref_id (testReferences s) (testReferences s) = testReferences s"
    by (simp_all add: wf_db_def put_each_same)
  have "importProfile (jsonRoundtrip (exportEntireProfile s)) s = Finished ?s'"
    by (simp add: importProfile_export[OF assms(2)] same)
  moreover have "getPreferences ?s' = getPreferences s"
    by (rule getPreferences_put)
  ultimately show ?thesis
    by (simp add: getPatients_def getAllReadings_def getTestReferences_def)
qed

text \<open>
  What the import does to the stores themselves: nothing at all when a preferences record
  is stored; when none is, the empty preferences object that the export carries is stored
  under \<^verbatim>\<open>'user_prefs'\<close>, which \<open>getPreferences\<close> does not tell apart from no record.
\<close>

lemma export_import_database:
  assumes "wf_db s" and "finiteNumbers s"
  shows "importProfile (jsonRoundtrip (exportEntireProfile s)) s
     = Finished (s\<lparr>preferences := put fst (''user_prefs'', getPreferences s) (preferences s)\<rparr>)"
proof -
  from assms(1) have "put_each p_id (patients s) (patients s) = patients s"
    "put_each r_id (readings s) (readings s) = readings s"
    "put_each ref_id (testReferences s) (testReferences s) = testReferences s"
    by (simp_all add: wf_db_def put_each_same)
  then show ?thesis
    by (simp add: importProfile_export[OF assms(2)])
qed

lemma export_import_stored_preferences:
  assumes "wf_db s" and "finiteNumbers s" and "get fst ''user_prefs'' (preferences s) \<noteq> None"
  shows "importProfile (jsonRoundtrip (exportEntireProfile s)) s = Finished s"
proof -
  from assms(3) obtain key prefs
    where g: "get fst ''user_prefs'' (preferences s) = Some (key, prefs)"
    by auto
  then have "getPreferences s = prefs" by (simp add: getPreferences_def)
  with assms(1) g have "put fst (''user_prefs'', getPreferences s) (preferences s) = preferences s"
    by (simp add: put_stored_preferences wf_db_def)
  then show ?thesis
    by (simp add: export_import_database[OF assms(1,2)])
qed

lemma clinicDB_facts: "wf_db clinicDB" "finiteNumbers clinicDB"
  by code_simp+

lemma clinicDB_import:
  "importProfile (jsonRoundtrip (exportEntireProfile clinicDB)) clinicDB = Finished clinicDB"
  by code_simp

theorem export_import_roundtrip_witness:
  "wf_db clinicDB \<and> finiteNumbers clinicDB
   \<and> getPatients clinicDB = [bobN] \<and> getAllReadings clinicDB = [readingN1]
   \<and> getPreferences clinicDB = prefsNameAbc
   \<and> importProfile (jsonRoundtrip (exportEntireProfile clinicDB)) clinicDB = Finished clinicDB"
proof -
  from export_import_roundtrip [OF clinicDB_facts]
  obtain s' where "importProfile (jsonRoundtrip (exportEntireProfile clinicDB)) clinicDB = Finished s'"
    by blast
  with clinicDB_import have "importProfile (jsonRoundtrip (exportEntireProfile clinicDB)) clinicDB
      = Finished clinicDB"
    by simp
  moreover have "getPatients clinicDB = [bobN]" "getAllReadings clinicDB = [readingN1]"
    "getPreferences clinicDB = prefsNameAbc"
    by code_simp+
  ultimately show ?thesis using clinicDB_facts by simp
qed

text \<open>
  Claim C2 as stated fails. The bulk form stores the NaN that \<open>parseFloat\<close> gives for a
  value that is no number; the database is in key order; the export writes the value as
  \<^verbatim>\<open>null\<close>, and after the import the reading holds \<^verbatim>\<open>null\<close> where it held NaN.
\<close>

theorem export_import_nan_counterexample:
  "wf_db nanDB
   \<and> map r_value (getAllReadings nanDB) = [NaN]
   \<and> (case importProfile (jsonRoundtrip (exportEntireProfile nanDB)) nanDB of
         Finished s' \<Rightarrow> map r_value (getAllReadings s') = [Null]
       | Threw e s' \<Rightarrow> False
       | Unmodelled \<Rightarrow> False)"
  by code_simp

subsection \<open>The tests of the import\<close>

lemma isList_truthy: "isList v \<Longrightarrow> truthy v"
  by (cases v rule: isList.cases) simp_all

lemma isObject_truthy: "isObject v \<Longrightarrow> truthy v"
  by (cases v rule: isObject.cases) simp_all

lemma wellKinded_shapes:
  assumes "isList (property ''patients'' data) \<or> \<not> truthy (property ''patients'' data)"
    and "isList (property ''readings'' data) \<or> \<not> truthy (property ''readings'' data)"
    and "isObject (property ''patient'' data) \<or> \<not> truthy (property ''patient'' data)"
    and "isList (property ''testReferences'' data) \<or> \<not> truthy (property ''testReferences'' data)"
  shows "testedShape data = specShape data"
proof -
  have "truthy (property ''patients'' data) = isList (property ''patients'' data)"
    "truthy (property ''readings'' data) = isList (property ''readings'' data)"
    "truthy (property ''patient'' data) = isObject (property ''patient'' data)"
    "truthy (property ''testReferences'' data) = isList (property ''testReferences'' data)"
    using assms isList_truthy isObject_truthy by blast+
  then show ?thesis
    by (simp add: testedShape_def specShape_def)
qed





subsection \<open>A patients list without readings\<close>







section \<open>Bulk save\<close>

lemma run_bulkSaveReadings:
  "run (bulkSaveReadings rs) s
     = foldl (\<lambda>st reading. deriveReference reading (putReading reading st)) s rs"
  by (simp add: run_def bulkSaveReadings_def)

lemma interrupted_bulkSaveReadings:
  "interrupted n (bulkSaveReadings rs) s = (if n = 0 then s else run (bulkSaveReadings rs) s)"
  by (cases n) (simp_all add: interrupted_def run_def bulkSaveReadings_def)

lemma readings_deriveReference: "readings (deriveReference reading s) = readings s"
  by (simp add: deriveReference_def)

lemma readings_round:
  "readings (deriveReference reading (putReading reading s)) = put r_id reading (readings s)"
  by (simp add: deriveReference_def putReading_def)

lemma bulkSaveReadings_persist:
  "distinct (map r_id rs) \<Longrightarrow> set rs \<subseteq> set (readings (run (bulkSaveReadings rs) s))"
proof (induction rs rule: rev_induct)
  case Nil
  then show ?case by simp
next
  case (snoc r rs)
  let ?mid = "run (bulkSaveReadings rs) s"
  have step: "readings (run (bulkSaveReadings (rs @ [r])) s) = put r_id r (readings ?mid)"
    by (simp add: run_bulkSaveReadings readings_round)
  from snoc.prems have d: "distinct (map r_id rs)" and "r_id r \<notin> set (map r_id rs)"
    by simp_all
  then have fresh: "\<forall>x\<in>set rs. r_id x \<noteq> r_id r"
    by (metis image_eqI set_map)
  from snoc.IH[OF d] have "set rs \<subseteq> set (readings ?mid)" .
  with fresh have "set rs \<subseteq> set (put r_id r (readings ?mid))"
    by (auto intro: put_keeps_others)
  then show ?case
    unfolding step using put_member[of r r_id "readings ?mid"] by simp
qed

lemma parseLine_malformed:
  "specMalformed toISOString line \<longleftrightarrow>
     (\<exists>e. parseLine uuidv4 parseFloat toISOString pid i line = Inl e)"
  by (auto simp: specMalformed_def parseLine_def Let_def split: option.splits)

lemma parseLines_Inl:
  "(\<exists>l\<in>set lines. specMalformed toISOString l) \<longleftrightarrow>
     (\<exists>e. parseLines uuidv4 parseFloat toISOString pid i lines = Inl e)"
proof (induction lines arbitrary: i)
  case Nil
  then show ?case by simp
next
  case (Cons l ls)
  show ?case
  proof (cases "parseLine uuidv4 parseFloat toISOString pid i l")
    case (Inl e)
    then have "specMalformed toISOString l"
      using parseLine_malformed[of toISOString l uuidv4 parseFloat pid i] by auto
    with Inl show ?thesis by simp
  next
    case (Inr r)
    then have "\<not> specMalformed toISOString l"
      using parseLine_malformed[of toISOString l uuidv4 parseFloat pid i] by auto
    with Inr Cons.IH[of "Suc i"] show ?thesis
      by (auto split: sum.splits)
  qed
qed

lemma parseLines_length:
  "parseLines uuidv4 parseFloat toISOString pid i lines = Inr rs \<Longrightarrow> length rs = length lines"
  by (induction lines arbitrary: i rs) (auto split: sum.splits)

lemma parseLines_ids:
  "parseLines uuidv4 parseFloat toISOString pid i lines = Inr rs \<Longrightarrow>
   map r_id rs = map uuidv4 [i ..< i + length lines]"
proof (induction lines arbitrary: i rs)
  case Nil
  then show ?case by simp
next
  case (Cons l ls)
  then obtain r rs' where r: "parseLine uuidv4 parseFloat toISOString pid i l = Inr r"
    and rs': "parseLines uuidv4 parseFloat toISOString pid (Suc i) ls = Inr rs'"
    and rs: "rs = r # rs'"
    by (auto split: sum.splits)
  from r have "r_id r = uuidv4 i"
    by (auto simp: parseLine_def Let_def split: if_splits option.splits)
  moreover have "[i ..< i + length (l # ls)] = i # [Suc i ..< Suc i + length ls]"
    by (simp add: upt_conv_Cons del: upt_Suc)
  ultimately show ?case
    using Cons.IH[OF rs'] rs by simp
qed


text \<open>
  Claim C4. For every batch \<open>rs\<close> given to \<open>bulkSaveReadings\<close>, what is committed when
  the operation stops anywhere is either the database as it was or the database with the
  whole batch saved, and in the latter every reading of the batch is stored when their
  identifiers are distinct. For every text submitted through the bulk form for a patient:
  when a line is malformed the handler fails, no transaction is opened and the database is
  as it was; when none is, all lines become one batch, in order, with the identifiers that
  \<open>uuidv4\<close> gave, handed to \<open>bulkSaveReadings\<close>.
\<close>

theorem bulk_save_all_or_nothing:
  assumes "pid \<noteq> []" and "trim bulkText \<noteq> []"
  shows "(interrupted n (bulkSaveReadings rs) s = s
          \<or> interrupted n (bulkSaveReadings rs) s = run (bulkSaveReadings rs) s)
     \<and> (distinct (map r_id rs) \<longrightarrow> set rs \<subseteq> set (readings (run (bulkSaveReadings rs) s)))
     \<and> ((\<exists>l\<in>set (bulkLines bulkText). specMalformed toISOString l) \<longrightarrow>
          (\<exists>e. handleBulkSubmit uuidv4 parseFloat toISOString (Some pid) bulkText = Inl e
             \<and> attempt (handleBulkSubmit uuidv4 parseFloat toISOString (Some pid) bulkText) s
                  = (Some e, s)))
     \<and> (\<not> (\<exists>l\<in>set (bulkLines bulkText). specMalformed toISOString l) \<longrightarrow>
          (\<exists>batch. handleBulkSubmit uuidv4 parseFloat toISOString (Some pid) bulkText
                      = Inr (bulkSaveReadings batch)
             \<and> length batch = length (bulkLines bulkText)
             \<and> map r_id batch = map uuidv4 [0 ..< length (bulkLines bulkText)]))"
proof -
  let ?parse = "parseLines uuidv4 parseFloat toISOString pid 0 (bulkLines bulkText)"
  have form: "handleBulkSubmit uuidv4 parseFloat toISOString (Some pid) bulkText
      = (case ?parse of Inl e \<Rightarrow> Inl e | Inr batch \<Rightarrow> Inr (bulkSaveReadings batch))"
    using assms by (simp add: handleBulkSubmit_def)
  have bad: "\<exists>e. handleBulkSubmit uuidv4 parseFloat toISOString (Some pid) bulkText = Inl e
      \<and> attempt (handleBulkSubmit uuidv4 parseFloat toISOString (Some pid) bulkText) s = (Some e, s)"
    if "\<exists>l\<in>set (bulkLines bulkText). specMalformed toISOString l"
  proof -
    from that obtain e where "?parse = Inl e"
      using parseLines_Inl[of "bulkLines bulkText" toISOString uuidv4 parseFloat pid 0] by auto
    then show ?thesis by (simp add: form attempt_def)
  qed
  have good: "\<exists>batch. handleBulkSubmit uuidv4 parseFloat toISOString (Some pid) bulkText
        = Inr (bulkSaveReadings batch)
      \<and> length batch = length (bulkLines bulkText)
      \<and> map r_id batch = map uuidv4 [0 ..< length (bulkLines bulkText)]"
    if "\<not> (\<exists>l\<in>set (bulkLines bulkText). specMalformed toISOString l)"
  proof -
    from that have "\<not> (\<exists>e. ?parse = Inl e)"
      using parseLines_Inl[of "bulkLines bulkText" toISOString uuidv4 parseFloat pid 0] by simp
    then obtain batch where b: "?parse = Inr batch"
      by (cases ?parse) auto
    from parseLines_length[OF b] parseLines_ids[OF b] b show ?thesis
      by (intro exI[of _ batch]) (simp add: form)
  qed
  show ?thesis
    using bad good bulkSaveReadings_persist[of rs s]
    by (simp add: interrupted_bulkSaveReadings)
qed



lemma badText_eval:
  "attempt (handleBulkSubmit uuidExample parseFloatExample toISOStringExample
      (Some ''A1'') badText) scenarioDB = (Some RangeError, scenarioDB)"
  by code_simp

lemma goodText_eval:
  "map r_id (readings (snd (attempt (handleBulkSubmit uuidExample parseFloatExample
      toISOStringExample (Some ''A1'') goodText) scenarioDB))) = [''R1'', ''uuid-'', ''uuid-i'']"
  by code_simp

theorem bulk_save_all_or_nothing_witness:
  "(\<exists>l\<in>set (bulkLines badText). specMalformed toISOStringExample l)
   \<and> attempt (handleBulkSubmit uuidExample parseFloatExample toISOStringExample
        (Some ''A1'') badText) scenarioDB = (Some RangeError, scenarioDB)
   \<and> map r_id (readings (snd (attempt (handleBulkSubmit uuidExample parseFloatExample
        toISOStringExample (Some ''A1'') goodText) scenarioDB))) = [''R1'', ''uuid-'', ''uuid-i'']"
proof -
  have pid: "''A1'' \<noteq> []" and nonblank: "trim badText \<noteq> []"
    by code_simp+
  have bad: "\<exists>l\<in>set (bulkLines badText). specMalformed toISOStringExample l"
    by code_simp
  from bulk_save_all_or_nothing [OF pid nonblank, of 1 "[]" scenarioDB toISOStringExample
      uuidExample parseFloatExample] bad
  obtain e where "attempt (handleBulkSubmit uuidExample parseFloatExample toISOStringExample
      (Some ''A1'') badText) scenarioDB = (Some e, scenarioDB)"
    by blast
  with badText_eval goodText_eval bad show ?thesis
    by simp
qed

section \<open>Key order is an invariant\<close>

text \<open>
  The empty database is in key order and every operation keeps it so; the hypothesis of
  the round-trip theorem holds in every database that the operations can reach.
\<close>

lemma wf_db_emptyDB: "wf_db emptyDB"
  by (simp add: wf_db_def emptyDB_def key_ordered_def)

lemma wf_db_run:
  assumes "\<And>t st. t \<in> set txs \<Longrightarrow> wf_db st \<Longrightarrow> wf_db (t st)" and "wf_db s"
  shows "wf_db (run txs s)"
  using assms unfolding run_def
  by (induction txs arbitrary: s) simp_all

lemma wf_db_putReading: "wf_db s \<Longrightarrow> wf_db (putReading reading s)"
  by (simp add: wf_db_def putReading_def key_ordered_put)

lemma wf_db_deriveReference: "wf_db s \<Longrightarrow> wf_db (deriveReference reading s)"
  by (simp add: wf_db_def deriveReference_def key_ordered_put)

lemma wf_db_initDB: "wf_db s \<Longrightarrow> wf_db (run (initDB defaultTests) s)"
  by (auto simp: run_def initDB_def wf_db_def intro: key_ordered_put_each)

lemma initDB_seeded:
  "testReferences s \<noteq> [] \<Longrightarrow> run (initDB defaultTests) s = s"
  by (simp add: run_def initDB_def)

lemma initDB_user_data:
  "patients (run (initDB defaultTests) s) = patients s"
  "readings (run (initDB defaultTests) s) = readings s"
  "preferences (run (initDB defaultTests) s) = preferences s"
  by (simp_all add: run_def initDB_def)

lemma wf_db_savePatient: "wf_db s \<Longrightarrow> wf_db (run (savePatient p) s)"
  by (simp add: run_def savePatient_def wf_db_def key_ordered_put)

lemma wf_db_deletePatient: "wf_db s \<Longrightarrow> wf_db (run (deletePatient pid) s)"
  by (simp add: run_deletePatient wf_db_def delete_key_def deleteByCursor_filter key_ordered_filter)

lemma wf_db_saveReading: "wf_db s \<Longrightarrow> wf_db (run (saveReading reading) s)"
  by (simp add: run_saveReading wf_db_putReading wf_db_deriveReference)

lemma wf_db_rounds:
  "wf_db s \<Longrightarrow> wf_db (foldl (\<lambda>st reading. deriveReference reading (putReading reading st)) s rs)"
  by (induction rs arbitrary: s) (simp_all add: wf_db_putReading wf_db_deriveReference)

lemma wf_db_bulkSaveReadings: "wf_db s \<Longrightarrow> wf_db (run (bulkSaveReadings rs) s)"
  by (simp add: run_bulkSaveReadings wf_db_rounds)

lemma wf_db_saveTestReference: "wf_db s \<Longrightarrow> wf_db (run (saveTestReference ref) s)"
  by (simp add: run_def saveTestReference_def wf_db_def key_ordered_put)

lemma wf_db_savePreferences: "wf_db s \<Longrightarrow> wf_db (run (savePreferences prefs) s)"
  by (simp add: run_savePreferences wf_db_def key_ordered_put)

text \<open>The import keeps the stores in key order as well, however it ends.\<close>

lemma key_ordered_putElements:
  "key_ordered k st \<Longrightarrow> putElements decode k vs st = Some (e, st') \<Longrightarrow> key_ordered k st'"
proof (induction vs arbitrary: st)
  case Nil
  then show ?case by simp
next
  case (Cons v vs)
  show ?case
  proof (cases "inlineKey decode v")
    case (Record r)
    with Cons.prems have "putElements decode k vs (put k r st) = Some (e, st')"
      by simp
    moreover from Cons.prems(1) have "key_ordered k (put k r st)"
      by (rule key_ordered_put)
    ultimately show ?thesis by (rule Cons.IH[rotated])
  next
    case NoKey
    with Cons.prems show ?thesis by simp
  next
    case Foreign
    with Cons.prems show ?thesis by simp
  qed
qed

lemma key_ordered_putIterable:
  assumes "key_ordered k st" and "putIterable decode k v st = Some (e, st')"
  shows "key_ordered k st'"
proof (cases "elements v")
  case None
  with assms show ?thesis by (simp add: putIterable_def)
next
  case (Some vs)
  with assms(2) have "putElements decode k vs st = Some (e, st')"
    by (simp add: putIterable_def)
  with assms(1) show ?thesis by (rule key_ordered_putElements)
qed

lemma holds_andThen:
  "holds P r \<Longrightarrow> (\<And>s. P s \<Longrightarrow> holds P (f s)) \<Longrightarrow> holds P (andThen r f)"
  by (cases r) (simp_all add: holds_def andThen_def)

lemma holds_stored:
  "(\<And>e st. r = Some (e, st) \<Longrightarrow> P (update st)) \<Longrightarrow> holds P (stored r update)"
  by (auto simp: holds_def stored_def split: option.splits)

lemma wf_putPatients:
  assumes "wf_db s"
  shows "holds wf_db (putPatients v s)"
  unfolding putPatients_def
proof (rule holds_stored)
  fix e st
  assume step: "putIterable decodePatient p_id v (patients s) = Some (e, st)"
  from assms have "key_ordered p_id (patients s)"
    by (simp add: wf_db_def)
  then have "key_ordered p_id st"
    using step by (rule key_ordered_putIterable)
  with assms show "wf_db (s\<lparr>patients := st\<rparr>)"
    by (simp add: wf_db_def)
qed

lemma wf_putPatient:
  assumes "wf_db s"
  shows "holds wf_db (putPatient v s)"
  unfolding putPatient_def
proof (rule holds_stored)
  fix e st
  assume step: "putElements decodePatient p_id [v] (patients s) = Some (e, st)"
  from assms have "key_ordered p_id (patients s)"
    by (simp add: wf_db_def)
  then have "key_ordered p_id st"
    using step by (rule key_ordered_putElements)
  with assms show "wf_db (s\<lparr>patients := st\<rparr>)"
    by (simp add: wf_db_def)
qed

lemma wf_putReadings:
  assumes "wf_db s"
  shows "holds wf_db (putReadings v s)"
  unfolding putReadings_def
proof (rule holds_stored)
  fix e st
  assume step: "putIterable decodeReading r_id v (readings s) = Some (e, st)"
  from assms have "key_ordered r_id (readings s)"
    by (simp add: wf_db_def)
  then have "key_ordered r_id st"
    using step by (rule key_ordered_putIterable)
  with assms show "wf_db (s\<lparr>readings := st\<rparr>)"
    by (simp add: wf_db_def)
qed

lemma wf_putReferences:
  assumes "wf_db s"
  shows "holds wf_db (putReferences v s)"
  unfolding putReferences_def
proof (rule holds_stored)
  fix e st
  assume step: "putIterable decodeReference ref_id v (testReferences s) = Some (e, st)"
  from assms have "key_ordered ref_id (testReferences s)"
    by (simp add: wf_db_def)
  then have "key_ordered ref_id st"
    using step by (rule key_ordered_putIterable)
  with assms show "wf_db (s\<lparr>testReferences := st\<rparr>)"
    by (simp add: wf_db_def)
qed


lemma wf_putPreferences: "wf_db s \<Longrightarrow> holds wf_db (putPreferences v s)"
  by (cases "decodePreferences v") (simp_all add: putPreferences_def holds_def wf_db_def key_ordered_put)

lemma holds_Threw: "P s \<Longrightarrow> holds P (Threw e s)"
  by (simp add: holds_def)

lemma holds_Finished: "P s \<Longrightarrow> holds P (Finished s)"
  by (simp add: holds_def)

lemma wf_importFull:
  assumes "wf_db s"
  shows "holds wf_db (importFull data s)"
  unfolding importFull_def
proof (rule holds_andThen [OF wf_putPatients [OF assms]])
  fix s1 :: "number HealthTrackerDB"
  assume "wf_db s1"
  then show "holds wf_db
     (andThen (putReadings (the (property ''readings'' data)) s1) (\<lambda>s.
      andThen (if truthy (property ''testReferences'' data)
               then putReferences (the (property ''testReferences'' data)) s
               else Finished s) (\<lambda>s.
      if truthy (property ''preferences'' data)
      then putPreferences (the (property ''preferences'' data)) s
      else Finished s)))"
  proof (intro holds_andThen wf_putReadings)
    fix s2 :: "number HealthTrackerDB"
    assume "wf_db s2"
    then show "holds wf_db (if truthy (property ''testReferences'' data)
               then putReferences (the (property ''testReferences'' data)) s2
               else Finished s2)"
      by (simp add: wf_putReferences holds_Finished)
  next
    fix s3 :: "number HealthTrackerDB"
    assume "wf_db s3"
    then show "holds wf_db (if truthy (property ''preferences'' data)
      then putPreferences (the (property ''preferences'' data)) s3
      else Finished s3)"
      by (simp add: wf_putPreferences holds_Finished)
  qed
qed

lemma wf_importMember:
  assumes "wf_db s"
  shows "holds wf_db (importMember data s)"
  unfolding importMember_def
  by (rule holds_andThen [OF wf_putPatient [OF assms]]) (rule wf_putReadings)

lemma wf_db_importProfile:
  assumes "wf_db s"
  shows "holds wf_db (importProfile json s)"
proof (cases json)
  case ParseError
  with assms show ?thesis by (simp add: importProfile_def holds_Threw)
next
  case (Parsed data)
  with assms show ?thesis
    by (simp add: importProfile_def importReferences_def holds_Threw wf_importFull
        wf_importMember wf_putReferences)
qed

end
